theory Spec2Isabelle
  imports Main
begin

section \<open>Python values and exceptions\<close>

text \<open>
  The exceptions the modelled code can raise.  A function of the source that can raise
  returns \<open>py_error + 'a\<close> (\<open>Inl\<close> the exception); one that mutates state and can raise
  as well returns the exception, if any, beside the state it leaves behind.
\<close>

datatype py_error =
    NameError string
  | ValueError string
  | IndexError
  | UnicodeDecodeError
  | Binascii_Error
  | KeyError string
  | OSError string
  | URLError string
  | Exception string

text \<open>
  A telemetry value: a Python \<open>int\<close>, a \<open>float\<close> (carried as the text Python prints for
  it: floating point itself is not modelled), a \<open>bool\<close> (a subclass of \<open>int\<close>, so
  \<open>isinstance(value, (int, float))\<close> holds for it), a \<open>str\<close>, or any other object (carried
  as its text form, for instance \<open>None\<close>).
\<close>

datatype pyvalue =
    PyInt int
  | PyFloat string
  | PyBool bool
  | PyStr string
  | PyOther string

section \<open>String operations\<close>

text \<open>\<open>str(n)\<close> for a Python integer: decimal digits, with a minus sign when negative.\<close>

fun digits_of :: "nat \<Rightarrow> string" where
  "digits_of n =
     (if n < 10 then [char_of (48 + n)] else digits_of (n div 10) @ [char_of (48 + n mod 10)])"

declare digits_of.simps [simp del]

definition str_int :: "int \<Rightarrow> string" where
  "str_int i = (if i < 0 then CHR ''-'' # digits_of (nat (- i)) else digits_of (nat i))"

text \<open>The text an f-string puts in for \<open>{value}\<close>.\<close>

fun text_of :: "pyvalue \<Rightarrow> string" where
  "text_of (PyInt i) = str_int i"
| "text_of (PyFloat t) = t"
| "text_of (PyBool b) = (if b then ''True'' else ''False'')"
| "text_of (PyStr s) = s"
| "text_of (PyOther t) = t"

text \<open>
  \<open>str.lower()\<close> on the letters \<open>A\<close> to \<open>Z\<close> (a \<open>char\<close> is a byte; other bytes are left
  alone), and \<open>str.replace(old, new)\<close> for a one-character \<open>old\<close>.
\<close>

definition lower_char :: "char \<Rightarrow> char" where
  "lower_char c =
     (let n = (of_char c :: nat) in if 65 \<le> n \<and> n \<le> 90 then char_of (n + 32) else c)"

definition lower :: "string \<Rightarrow> string" where
  "lower s = map lower_char s"

definition replace :: "char \<Rightarrow> string \<Rightarrow> string \<Rightarrow> string" where
  "replace old new s = concat (map (\<lambda>c. if c = old then new else [c]) s)"

text \<open>\<open>sep.join(lines)\<close>.\<close>

fun join :: "string \<Rightarrow> string list \<Rightarrow> string" where
  "join sep [] = []"
| "join sep [l] = l"
| "join sep (l # m # ls) = l @ sep @ join sep (m # ls)"

section \<open>The regular expressions of the source\<close>

text \<open>
  Both patterns of the source are sequences of character classes, each taken once or
  under \<open>?\<close>, \<open>*\<close> or \<open>+\<close>.  \<open>match_here\<close> lists, in the order in which Python's
  backtracking matcher tries them (greedy: longest first), the ways in which a sequence
  of items matches a prefix of the text: the text each item consumed, and the rest.
\<close>

datatype quant = Once | Opt | Star | Plus

type_synonym item = "(char \<Rightarrow> bool) \<times> quant"

fun spans :: "(char \<Rightarrow> bool) \<Rightarrow> string \<Rightarrow> (string \<times> string) list" where
  "spans p [] = [([], [])]"
| "spans p (c # cs) =
     (if p c then map (\<lambda>(m, r). (c # m, r)) (spans p cs) @ [([], c # cs)]
      else [([], c # cs)])"

fun step :: "item \<Rightarrow> string \<Rightarrow> (string \<times> string) list" where
  "step (p, Once) s = (case s of [] \<Rightarrow> [] | c # cs \<Rightarrow> if p c then [([c], cs)] else [])"
| "step (p, Opt) s =
     (case s of [] \<Rightarrow> [([], [])]
      | c # cs \<Rightarrow> if p c then [([c], cs), ([], c # cs)] else [([], c # cs)])"
| "step (p, Star) s = spans p s"
| "step (p, Plus) s = filter (\<lambda>(m, r). m \<noteq> []) (spans p s)"

fun match_here :: "item list \<Rightarrow> string \<Rightarrow> (string list \<times> string) list" where
  "match_here [] s = [([], s)]"
| "match_here (it # its) s =
     concat (map (\<lambda>(m, r). map (\<lambda>(ms, r'). (m # ms, r')) (match_here its r)) (step it s))"

text \<open>
  \<open>$\<close> without \<open>re.MULTILINE\<close>: at the end of the text, or just before a newline that
  is the last character of the text.
\<close>

definition at_dollar :: "string \<Rightarrow> bool" where
  "at_dollar r = (r = [] \<or> r = [CHR 0x0A])"

definition is_digit :: "char \<Rightarrow> bool" where
  "is_digit c = (c \<in> set ''0123456789'')"

definition is_sign :: "char \<Rightarrow> bool" where
  "is_sign c = (c = CHR ''+'' \<or> c = CHR ''-'')"

text \<open>\<open>re.match(r'^[+-]?[0-9]+\.?[0-9]*$', s)\<close>, as a truth value.\<close>

definition numeric_items :: "item list" where
  "numeric_items = [(is_sign, Opt), (is_digit, Plus), (\<lambda>c. c = CHR ''.'', Opt), (is_digit, Star)]"

definition re_match_numeric :: "string \<Rightarrow> bool" where
  "re_match_numeric s = list_ex (\<lambda>(ms, r). at_dollar r) (match_here numeric_items s)"

text \<open>
  \<open>re.search(r'node="([^"]+)"', line)\<close>: the leftmost position at which the pattern
  matches, and \<open>group(1)\<close> of the first match the matcher finds there.
\<close>

definition node_items :: "item list" where
  "node_items =
     map (\<lambda>a. (\<lambda>c. c = a, Once)) [CHR ''n'', CHR ''o'', CHR ''d'', CHR ''e'', CHR ''='', CHR 0x22]
     @ [(\<lambda>c. c \<noteq> CHR 0x22, Plus), (\<lambda>c. c = CHR 0x22, Once)]"

fun re_search_node :: "string \<Rightarrow> string option" where
  "re_search_node s =
     (case match_here node_items s of
        (ms, r) # _ \<Rightarrow> Some (ms ! 6)
      | [] \<Rightarrow> (case s of [] \<Rightarrow> None | c # cs \<Rightarrow> re_search_node cs))"

declare re_search_node.simps [simp del]

section \<open>MetricRenderer (\<open>prometheus_manager.py\<close>, \<open>PrometheusFormatter\<close>)\<close>

text \<open>
  A reading set is a Python dictionary, iterated in insertion order: a list of
  key/value pairs.  The device metadata is a dictionary from field names to strings.
\<close>

type_synonym telemetry = "(string \<times> pyvalue) list"

type_synonym device = "string \<rightharpoonup> string"

record formatter =
  node_id_format :: string
  version :: string

definition format_node_id_for_metric :: "formatter \<Rightarrow> string \<Rightarrow> string" where
  "format_node_id_for_metric f node_id =
     (if node_id_format f = ''clean'' then replace (CHR ''!'') [] node_id else node_id)"

definition sanitize_filename :: "string \<Rightarrow> string" where
  "sanitize_filename node_id =
     replace (CHR 0x5C) ''_'' (replace (CHR ''/'') ''_'' (replace (CHR ''!'') [] node_id))"

definition metric_name :: "string \<Rightarrow> string" where
  "metric_name key = ''meshtastic_'' @ replace (CHR '' '') ''_'' (lower key)"

text \<open>
  The test of the loop body:
  \<open>isinstance(value, (int, float)) or (isinstance(value, str) and re.match(...))\<close>.
\<close>

fun is_numeric :: "pyvalue \<Rightarrow> bool" where
  "is_numeric (PyInt i) = True"
| "is_numeric (PyFloat t) = True"
| "is_numeric (PyBool b) = True"
| "is_numeric (PyStr s) = re_match_numeric s"
| "is_numeric (PyOther t) = False"

text \<open>The line the loop body appends for one reading.\<close>

definition reading_line :: "string \<Rightarrow> string \<times> pyvalue \<Rightarrow> string" where
  \<open>reading_line metric_node_id kv =
     (if is_numeric (snd kv)
      then metric_name (fst kv) @ ''{node="'' @ metric_node_id @ ''"} '' @ text_of (snd kv)
      else metric_name (fst kv) @ ''{node="'' @ metric_node_id @ ''",str="''
             @ text_of (snd kv) @ ''"} 1'')\<close>

text \<open>
  The four metadata metrics, each appended only if \<open>device_info.get(field)\<close> is truthy
  (the field is present and not the empty string).
\<close>

definition truthy_field :: "device \<Rightarrow> string \<Rightarrow> string option" where
  "truthy_field device_info field =
     (case device_info field of None \<Rightarrow> None | Some v \<Rightarrow> if v = [] then None else Some v)"

definition metadata_lines :: "string \<Rightarrow> device \<Rightarrow> string list" where
  \<open>metadata_lines metric_node_id device_info =
     (case truthy_field device_info ''contact_name'' of None \<Rightarrow> []
      | Some v \<Rightarrow> [''meshtastic_contact{node="'' @ metric_node_id @ ''",contact="'' @ v @ ''"} 1''])
     @ (case truthy_field device_info ''location'' of None \<Rightarrow> []
      | Some v \<Rightarrow> [''meshtastic_location{node="'' @ metric_node_id @ ''",location="'' @ v @ ''"} 1''])
     @ (case truthy_field device_info ''latitude'' of None \<Rightarrow> []
      | Some v \<Rightarrow> [''meshtastic_latitude{node="'' @ metric_node_id @ ''"} '' @ v])
     @ (case truthy_field device_info ''longitude'' of None \<Rightarrow> []
      | Some v \<Rightarrow> [''meshtastic_longitude{node="'' @ metric_node_id @ ''"} '' @ v])\<close>

definition up_line :: "string \<Rightarrow> string \<Rightarrow> telemetry \<Rightarrow> string" where
  \<open>up_line metric_node_id ver telemetry_data =
     ''meshtastic_up{node="'' @ metric_node_id @ ''",version="'' @ ver @ ''"} ''
       @ (if telemetry_data \<noteq> [] then ''1'' else ''0'')\<close>

definition format_prometheus_metrics ::
  "formatter \<Rightarrow> string \<Rightarrow> telemetry \<Rightarrow> device \<Rightarrow> string list" where
  "format_prometheus_metrics f node_id telemetry_data device_info =
     (let metric_node_id = format_node_id_for_metric f node_id
      in map (reading_line metric_node_id) telemetry_data
         @ metadata_lines metric_node_id device_info
         @ [up_line metric_node_id (version f) telemetry_data])"

text \<open>
  The name of the metric a rendered line belongs to: the text before its label set.
\<close>

definition metric_of_line :: "string \<Rightarrow> string" where
  "metric_of_line l = takeWhile (\<lambda>c. c \<noteq> CHR ''{'') l"

definition up_metrics :: "string list \<Rightarrow> string list" where
  "up_metrics ls = filter (\<lambda>l. metric_of_line l = ''meshtastic_up'') ls"

text \<open>
  The contract the specification gives for a numeric-looking text: an optional leading
  sign, digits, and an optional fractional part (a point and the digits after it,
  if any), and nothing else.
\<close>

definition spec_numeric_text :: "string \<Rightarrow> bool" where
  "spec_numeric_text s =
     (let body = (case s of [] \<Rightarrow> [] | c # cs \<Rightarrow> if is_sign c then cs else s);
          whole = takeWhile is_digit body;
          rest = dropWhile is_digit body
      in whole \<noteq> [] \<and>
         (case rest of [] \<Rightarrow> True | d # frac \<Rightarrow> d = CHR ''.'' \<and> list_all is_digit frac))"

section \<open>The daemon's renderer (\<open>meshmetricsd.py\<close>, \<open>format_prometheus_output\<close>)\<close>

text \<open>
  Python resolves a name that a function never assigns in the module's globals (and then
  the builtins, which have no \<open>clean_node_id\<close>); a name bound nowhere raises
  \<open>NameError\<close>.  A namespace gives each bound name the text an f-string would print
  for it.  \<open>daemon_globals\<close> are the names \<open>meshmetricsd.py\<close> binds at module level:
  its imports, \<open>CRYPTO_AVAILABLE\<close>, \<open>VERSION\<close>, its classes and \<open>main\<close>.
\<close>

type_synonym namespace = "(string \<times> string) list"

definition VERSION :: string where
  "VERSION = ''MTM-v0.98-Daemon''"

definition daemon_globals :: namespace where
  "daemon_globals =
     map (\<lambda>n. (n, ''<module>''))
       [''argparse'', ''csv'', ''os'', ''pwd'', ''grp'', ''re'', ''sys'', ''time'', ''signal'',
        ''logging'', ''configparser'', ''threading'', ''itertools'', ''getpass'', ''json'',
        ''tempfile'', ''shutil'', ''urllib'', ''meshtastic'', ''portnums_pb2'',
        ''telemetry_pb2'', ''base64'']
     @ map (\<lambda>n. (n, ''<class>''))
       [''Path'', ''List'', ''Dict'', ''Optional'', ''Tuple'', ''datetime'', ''Cipher'',
        ''algorithms'', ''modes'', ''PBKDF2HMAC'', ''hashes'', ''default_backend'',
        ''DaemonConfig'', ''PrometheusExporter'', ''MeshtasticTelemetryDaemon'']
     @ [(''CRYPTO_AVAILABLE'', ''True''), (''VERSION'', VERSION), (''main'', ''<function>'')]"

definition load_name :: "namespace \<Rightarrow> string \<Rightarrow> py_error + string" where
  "load_name locals name =
     (case map_of locals name of
        Some v \<Rightarrow> Inr v
      | None \<Rightarrow> (case map_of daemon_globals name of
                   Some v \<Rightarrow> Inr v
                 | None \<Rightarrow> Inl (NameError name)))"

text \<open>Sequencing of computations that may raise.\<close>

definition bind :: "py_error + 'a \<Rightarrow> ('a \<Rightarrow> py_error + 'b) \<Rightarrow> py_error + 'b" where
  "bind m k = (case m of Inl e \<Rightarrow> Inl e | Inr a \<Rightarrow> k a)"

text \<open>
  The loop over the readings.  \<open>locals\<close> holds the parameters and \<open>output_lines\<close>; each
  pass binds \<open>key\<close>, \<open>value\<close> and \<open>metric_name\<close>, then evaluates the f-string of its
  branch from left to right.
\<close>

fun daemon_readings :: "namespace \<Rightarrow> telemetry \<Rightarrow> py_error + string list" where
  "daemon_readings locals [] = Inr []"
| \<open>daemon_readings locals ((key, v) # rest) =
     (let locals' = [(''key'', key), (''value'', text_of v), (''metric_name'', metric_name key)]
                      @ locals
      in bind
           (if is_numeric v
            then bind (load_name locals' ''metric_name'') (\<lambda>m.
                 bind (load_name locals' ''clean_node_id'') (\<lambda>n.
                 bind (load_name locals' ''value'') (\<lambda>t.
                 Inr (m @ ''{node="'' @ n @ ''"} '' @ t))))
            else bind (load_name locals' ''metric_name'') (\<lambda>m.
                 bind (load_name locals' ''clean_node_id'') (\<lambda>n.
                 bind (load_name locals' ''value'') (\<lambda>t.
                 Inr (m @ ''{node="'' @ n @ ''",str="'' @ t @ ''"} 1'')))))
           (\<lambda>l. bind (daemon_readings locals rest) (\<lambda>ls. Inr (l # ls))))\<close>

definition daemon_metadata :: "namespace \<Rightarrow> device \<Rightarrow> py_error + string list" where
  \<open>daemon_metadata locals device_info =
     bind (case truthy_field device_info ''contact_name'' of None \<Rightarrow> Inr []
           | Some v \<Rightarrow> bind (load_name locals ''clean_node_id'') (\<lambda>n.
               Inr [''meshtastic_contact{node="'' @ n @ ''",contact="'' @ v @ ''"} 1''])) (\<lambda>l1.
     bind (case truthy_field device_info ''location'' of None \<Rightarrow> Inr []
           | Some v \<Rightarrow> bind (load_name locals ''clean_node_id'') (\<lambda>n.
               Inr [''meshtastic_Location{node="'' @ n @ ''",location="'' @ v @ ''"} 1''])) (\<lambda>l2.
     bind (case truthy_field device_info ''latitude'' of None \<Rightarrow> Inr []
           | Some v \<Rightarrow> bind (load_name locals ''clean_node_id'') (\<lambda>n.
               Inr [''meshtastic_Latitude{node="'' @ n @ ''"} '' @ v])) (\<lambda>l3.
     bind (case truthy_field device_info ''longitude'' of None \<Rightarrow> Inr []
           | Some v \<Rightarrow> bind (load_name locals ''clean_node_id'') (\<lambda>n.
               Inr [''meshtastic_Longitude{node="'' @ n @ ''"} '' @ v])) (\<lambda>l4.
     Inr (l1 @ l2 @ l3 @ l4)))))\<close>

definition format_prometheus_output :: "string \<Rightarrow> telemetry \<Rightarrow> device \<Rightarrow> py_error + string list" where
  \<open>format_prometheus_output node_id telemetry_data device_info =
     (let locals = [(''node_id'', node_id), (''telemetry_data'', ''<dict>''),
                    (''device_info'', ''<dict>''), (''output_lines'', ''<list>''),
                    (''self'', ''<object>'')]
      in bind (daemon_readings locals telemetry_data) (\<lambda>ls.
         bind (daemon_metadata locals device_info) (\<lambda>ms.
         let locals' = (''up_value'', if telemetry_data \<noteq> [] then ''1'' else ''0'') # locals
         in bind (load_name locals' ''clean_node_id'') (\<lambda>n.
            bind (load_name locals' ''VERSION'') (\<lambda>ver.
            bind (load_name locals' ''up_value'') (\<lambda>u.
            Inr (ls @ ms @ [''meshtastic_up{node="'' @ n @ ''",version="'' @ ver @ ''"} '' @ u])))))))\<close>

section \<open>SnapshotPublisher: the file system and atomic publication\<close>

text \<open>
  A path is the pair of \<open>filepath.parent\<close> and \<open>filepath.name\<close>; the file system maps
  the paths of the files that exist to their contents.  \<open>path_div d f\<close> is
  \<open>Path(d) / f\<close> for a relative \<open>f\<close>: the text of \<open>f\<close> after its last \<open>/\<close> is the
  name, what stands before it extends the directory.
\<close>

type_synonym path = "string \<times> string"

type_synonym filesystem = "path \<rightharpoonup> string"

definition path_div :: "string \<Rightarrow> string \<Rightarrow> path" where
  "path_div d f =
     (if CHR ''/'' \<in> set f
      then (d @ ''/'' @ rev (tl (dropWhile (\<lambda>c. c \<noteq> CHR ''/'') (rev f))),
            rev (takeWhile (\<lambda>c. c \<noteq> CHR ''/'') (rev f)))
      else (d, f))"

text \<open>
  The operating-system calls of the two writers.  The environment of one write says
  which platform it runs on (\<open>os.name\<close>), which calls raise when they are reached, which
  random infixes \<open>mkstemp\<close> tries in turn, and how many characters of the content reach
  the file before \<open>flush()\<close> is called (the writer is buffered).
\<close>

datatype os_call =
  Mkstemp | Fdopen | Open | Write | Flush | Fsync | Close | Unlink | Move | Rename | CleanupUnlink

record os_env =
  os_name :: string
  raising :: "os_call set"
  tmp_names :: "string list"
  early :: nat

text \<open>
  A trace lists the calls that changed or could have changed the file system, each with
  the file system it left behind: the states an observer can see, in order.
\<close>

type_synonym trace = "(os_call \<times> filesystem) list"

definition final_state :: "filesystem \<Rightarrow> trace \<Rightarrow> filesystem" where
  "final_state fs0 tr = (if tr = [] then fs0 else snd (last tr))"


text \<open>
  \<open>tempfile.mkstemp(suffix, prefix, dir)\<close>: the first candidate name that no file of
  the directory has is created exclusively; \<open>None\<close> when the call raises (an error of
  the operating system, or no candidate left).
\<close>

definition mkstemp :: "os_env \<Rightarrow> string \<Rightarrow> string \<Rightarrow> string \<Rightarrow> filesystem \<Rightarrow> path option" where
  "mkstemp env suffix prefix dir fs =
     (if Mkstemp \<in> raising env then None
      else map_option (\<lambda>n. (dir, n))
             (find (\<lambda>n. fs (dir, n) = None) (map (\<lambda>r. prefix @ r @ suffix) (tmp_names env))))"

text \<open>
  The \<open>except\<close> block of \<open>write_output_atomic\<close>: the temporary file is unlinked if it
  exists, and an exception of that \<open>os.unlink\<close> is swallowed (\<open>except: pass\<close>).  The
  call that raised is what the method reports.
\<close>

definition cleanup :: "os_env \<Rightarrow> path \<Rightarrow> filesystem \<Rightarrow> filesystem" where
  "cleanup env temp_path fs =
     (if fs temp_path \<noteq> None \<and> CleanupUnlink \<notin> raising env then fs(temp_path := None) else fs)"

definition failed :: "os_env \<Rightarrow> os_call \<Rightarrow> path \<Rightarrow> trace \<Rightarrow> filesystem \<Rightarrow> os_call option \<times> trace" where
  "failed env c temp_path tr fs = (Some c, tr @ [(CleanupUnlink, cleanup env temp_path fs)])"

text \<open>
  The last step: on Windows (\<open>os.name == 'nt'\<close>) an existing target is unlinked and the
  temporary file moved; elsewhere \<open>os.rename\<close> replaces the target in one step.
\<close>

definition move_into_place ::
  "os_env \<Rightarrow> path \<Rightarrow> path \<Rightarrow> trace \<Rightarrow> filesystem \<Rightarrow> os_call option \<times> trace" where
  "move_into_place env temp_path filepath tr fs =
     (if os_name env = ''nt'' then
        (if fs filepath \<noteq> None \<and> Unlink \<in> raising env then failed env Unlink temp_path tr fs
         else
           (let tr' = (if fs filepath \<noteq> None then tr @ [(Unlink, fs(filepath := None))] else tr);
                fs' = fs(filepath := None)
            in if Move \<in> raising env then failed env Move temp_path tr' fs'
               else (None, tr' @ [(Move, fs'(temp_path := None, filepath := fs' temp_path))])))
      else if Rename \<in> raising env then failed env Rename temp_path tr fs
      else (None, tr @ [(Rename, fs(temp_path := None, filepath := fs temp_path))]))"

text \<open>
  \<open>write_output_atomic(content, filepath)\<close>, of \<open>PrometheusFileWriter\<close> and of the
  daemon alike (they differ in what they log and in the exception they raise, not in
  what they do to the files).  The result is the call that raised, if any, and the trace.
\<close>

definition write_output_atomic ::
  "os_env \<Rightarrow> string \<Rightarrow> path \<Rightarrow> filesystem \<Rightarrow> os_call option \<times> trace" where
  "write_output_atomic env content filepath fs0 =
     (case mkstemp env ''.tmp'' (''.'' @ snd filepath @ ''.'') (fst filepath) fs0 of
        None \<Rightarrow> (Some Mkstemp, [])
      | Some temp_path \<Rightarrow>
          (let fs1 = fs0(temp_path \<mapsto> []);
               t1 = [(Mkstemp, fs1)]
           in if Fdopen \<in> raising env then failed env Fdopen temp_path t1 fs1
           else
             (let fs2 = fs1(temp_path \<mapsto> take (early env) content);
                  t2 = t1 @ [(Write, fs2)]
              in if Write \<in> raising env then failed env Write temp_path t2 fs2
              else if Flush \<in> raising env then failed env Flush temp_path t2 fs2
              else
                (let fs3 = fs2(temp_path \<mapsto> content);
                     t3 = t2 @ [(Flush, fs3)]
                 in if Fsync \<in> raising env then failed env Fsync temp_path t3 fs3
                 else if Close \<in> raising env
                      then failed env Close temp_path (t3 @ [(Fsync, fs3)]) fs3
                 else move_into_place env temp_path filepath
                        (t3 @ [(Fsync, fs3), (Close, fs3)]) fs3))))"

text \<open>
  The writer without temporary file: \<open>with open(filepath, 'w') as f: f.write(content)\<close>.
  Opening truncates the target.
\<close>

definition write_plain :: "os_env \<Rightarrow> string \<Rightarrow> path \<Rightarrow> filesystem \<Rightarrow> os_call option \<times> trace" where
  "write_plain env content filepath fs0 =
     (if Open \<in> raising env then (Some Open, [])
      else
        (let fs1 = fs0(filepath \<mapsto> []);
             fs2 = fs1(filepath \<mapsto> take (early env) content);
             t2 = [(Open, fs1), (Write, fs2)]
         in if Write \<in> raising env then (Some Write, t2)
            else if Close \<in> raising env then (Some Close, t2)
            else (None, t2 @ [(Close, fs2(filepath \<mapsto> content))])))"

text \<open>
  The world of one delivery: what the operating system does while the file at a given
  path is written, and whether creating the output directory raises.
\<close>

record world =
  file_env :: "path \<Rightarrow> os_env"
  mkdir_raises :: bool

definition write_one ::
  "world \<Rightarrow> bool \<Rightarrow> string \<Rightarrow> path \<Rightarrow> filesystem \<Rightarrow> os_call option \<times> filesystem" where
  "write_one w atomic content filepath fs =
     (let r = (if atomic then write_output_atomic (file_env w filepath) content filepath fs
               else write_plain (file_env w filepath) content filepath fs)
      in (fst r, final_state fs (snd r)))"

section \<open>SnapshotPublisher: one file per node\<close>

text \<open>
  The grouping loop shared by \<open>_write_individual_files\<close> and the daemon's
  \<open>write_output\<close>: \<open>node_outputs\<close> is a dictionary from the node label of a line to the
  lines that carry it, in insertion order; a line without node label is dropped.
\<close>

definition group_add :: "string \<Rightarrow> string \<Rightarrow> (string \<times> string list) list \<Rightarrow> (string \<times> string list) list" where
  "group_add node_id line groups =
     (if node_id \<in> fst ` set groups
      then map (\<lambda>(n, ls). if n = node_id then (n, ls @ [line]) else (n, ls)) groups
      else groups @ [(node_id, [line])])"

definition node_outputs :: "string list \<Rightarrow> (string \<times> string list) list" where
  "node_outputs all_output_lines =
     foldl (\<lambda>groups line. case re_search_node line of
                              None \<Rightarrow> groups
                            | Some node_id \<Rightarrow> group_add node_id line groups)
       [] all_output_lines"

definition file_content :: "string list \<Rightarrow> string" where
  "file_content ls = join [CHR 0x0A] ls @ [CHR 0x0A]"

text \<open>
  The files of per-node mode, in the order in which they are written: path and content.
  \<open>PrometheusFileWriter\<close> names a file after the sanitized node label, the daemon after
  the label as it stands.
\<close>

definition individual_filename :: "string \<Rightarrow> string" where
  "individual_filename node_id = ''meshtastic-'' @ sanitize_filename node_id @ ''.prom''"

definition individual_targets :: "string \<Rightarrow> string list \<Rightarrow> (path \<times> string) list" where
  "individual_targets output_dir all_output_lines =
     map (\<lambda>(node_id, ls). (path_div output_dir (individual_filename node_id), file_content ls))
       (node_outputs all_output_lines)"

definition daemon_individual_targets :: "string \<Rightarrow> string list \<Rightarrow> (path \<times> string) list" where
  "daemon_individual_targets output_dir all_output_lines =
     map (\<lambda>(node_id, ls). (path_div output_dir (''meshtastic-'' @ node_id @ ''.prom''), file_content ls))
       (node_outputs all_output_lines)"

record file_writer =
  fw_output_dir :: string
  fw_atomic_writes :: bool
  fw_individual_files :: bool

text \<open>
  \<open>_write_individual_files\<close>: the first write that raises ends the loop with an
  exception.  \<open>_write_single_file\<close> and \<open>write_metrics_files\<close> wrap what they catch
  likewise.
\<close>

fun write_files :: "world \<Rightarrow> bool \<Rightarrow> (path \<times> string) list \<Rightarrow> filesystem \<Rightarrow> py_error option \<times> filesystem" where
  "write_files w atomic [] fs = (None, fs)"
| "write_files w atomic ((filepath, content) # rest) fs =
     (case write_one w atomic content filepath fs of
        (Some c, fs') \<Rightarrow> (Some (Exception ''Failed to write individual file''), fs')
      | (None, fs') \<Rightarrow> write_files w atomic rest fs')"

definition write_metrics_files ::
  "world \<Rightarrow> file_writer \<Rightarrow> string list \<Rightarrow> filesystem \<Rightarrow> (py_error + bool) \<times> filesystem" where
  "write_metrics_files w fw all_output_lines fs =
     (if fw_output_dir fw = [] then (Inr True, fs)
      else if mkdir_raises w then (Inl (Exception ''Failed to write metrics files''), fs)
      else if fw_individual_files fw then
        (case write_files w (fw_atomic_writes fw)
                (individual_targets (fw_output_dir fw) all_output_lines) fs of
           (Some e, fs') \<Rightarrow> (Inl (Exception ''Failed to write metrics files''), fs')
         | (None, fs') \<Rightarrow> (Inr True, fs'))
      else
        (case write_one w (fw_atomic_writes fw) (file_content all_output_lines)
                (path_div (fw_output_dir fw) ''meshtastic.prom'') fs of
           (Some c, fs') \<Rightarrow> (Inl (Exception ''Failed to write metrics files''), fs')
         | (None, fs') \<Rightarrow> (Inr True, fs')))"

text \<open>
  A file name that names a file of the directory it is joined to: not empty, neither
  \<open>.\<close> nor \<open>..\<close>, and free of both path separators.
\<close>

definition plain_file_name :: "string \<Rightarrow> bool" where
  "plain_file_name n =
     (n \<noteq> [] \<and> n \<noteq> ''.'' \<and> n \<noteq> ''..'' \<and> CHR ''/'' \<notin> set n \<and> CHR 0x5C \<notin> set n)"

section \<open>PushClient (\<open>PrometheusPushGateway\<close> and the daemon's \<open>PrometheusExporter\<close>)\<close>

text \<open>
  Both classes hold the same four settings (\<open>instance_label\<close> is the attribute
  \<open>instance\<close>); \<open>push_url\<close> is stored stripped, and the empty text means that no
  endpoint is configured.
\<close>

record push_gateway =
  push_url :: string
  job_name :: string
  instance_label :: string
  timeout :: int

record request =
  req_url :: string
  req_data :: string
  req_headers :: "(string \<times> string) list"
  req_method :: string
  req_timeout :: int

text \<open>
  What \<open>urllib.request.urlopen\<close> does with a request: it returns a response with a
  status, or raises.  The network of a run is a function from requests to outcomes.
  The exceptions are those derived from \<open>Exception\<close>.
\<close>

datatype http_outcome = Response int | Raises py_error

text \<open>
  \<open>urllib.parse.quote\<close> with its default \<open>safe='/'\<close>: letters, digits and \<open>_.-~/\<close> stay,
  every other byte becomes \<open>%XX\<close>.
\<close>

definition unreserved :: "char \<Rightarrow> bool" where
  "unreserved c =
     (c \<in> set ''ABCDEFGHIJKLMNOPQRSTUVWXYZabcdefghijklmnopqrstuvwxyz0123456789_.-~/'')"

definition hex_digit :: "nat \<Rightarrow> char" where
  "hex_digit n = ''0123456789ABCDEF'' ! (n mod 16)"

definition quote :: "string \<Rightarrow> string" where
  "quote s =
     concat (map (\<lambda>c. if unreserved c then [c]
                       else [CHR ''%'', hex_digit (of_char c div 16), hex_digit (of_char c)]) s)"

definition rstrip_slash :: "string \<Rightarrow> string" where
  "rstrip_slash s = rev (dropWhile (\<lambda>c. c = CHR ''/'') (rev s))"

definition build_request :: "push_gateway \<Rightarrow> string list \<Rightarrow> request" where
  "build_request gw metrics_data =
     (let url_parts = [rstrip_slash (push_url gw), ''metrics'', ''job'', quote (job_name gw)]
                        @ (if instance_label gw \<noteq> [] then [''instance'', quote (instance_label gw)] else []);
          payload = join [CHR 0x0A] metrics_data @ [CHR 0x0A]
      in \<lparr>req_url = join ''/'' url_parts,
          req_data = payload,
          req_headers = [(''Content-Type'', ''text/plain; version=0.0.4; charset=utf-8''),
                         (''Content-Length'', str_int (int (length payload)))],
          req_method = ''POST'',
          req_timeout = timeout gw\<rparr>)"

fun error_text :: "py_error \<Rightarrow> string" where
  "error_text (NameError n) = ''name '' @ n @ '' is not defined''"
| "error_text (ValueError m) = m"
| "error_text IndexError = ''index out of range''"
| "error_text UnicodeDecodeError = ''invalid utf-8''"
| "error_text Binascii_Error = ''Incorrect padding''"
| "error_text (KeyError k) = k"
| "error_text (OSError m) = m"
| "error_text (URLError m) = m"
| "error_text (Exception m) = m"

text \<open>
  The body of the \<open>try\<close> of \<open>push_metrics\<close>: the request is built and sent.  The result
  comes with the requests that went to the network.
\<close>

definition push_attempt ::
  "push_gateway \<Rightarrow> (request \<Rightarrow> http_outcome) \<Rightarrow> string list
     \<Rightarrow> (py_error + bool \<times> string) \<times> request list" where
  "push_attempt gw net metrics_data =
     (let req = build_request gw metrics_data
      in (case net req of
            Raises e \<Rightarrow> Inl e
          | Response st \<Rightarrow>
              if st = 200 then Inr (True, [])
              else Inr (False, ''Push gateway returned status '' @ str_int st),
          [req]))"


text \<open>
  \<open>PrometheusExporter.push_metrics\<close> of the daemon: the same request, but the reason
  goes to the log and only the truth value is returned.  The result is the value (or the
  exception leaving the method), the lines logged, and the requests sent.
\<close>

definition exporter_push_metrics ::
  "push_gateway \<Rightarrow> (request \<Rightarrow> http_outcome) \<Rightarrow> string list
     \<Rightarrow> (py_error + bool) \<times> string list \<times> request list" where
  "exporter_push_metrics gw net metrics_data =
     (if push_url gw = [] then (Inr True, [], [])
      else
        (case push_attempt gw net metrics_data of
           (Inl (URLError m), reqs) \<Rightarrow>
             (Inr False, [''Failed to push metrics to '' @ push_url gw @ '': '' @ m], reqs)
         | (Inl e, reqs) \<Rightarrow>
             (Inr False, [''Unexpected error pushing metrics: '' @ error_text e], reqs)
         | (Inr (ok, reason), reqs) \<Rightarrow>
             (Inr ok, [if ok then ''Successfully pushed metrics'' else reason], reqs)))"

section \<open>DaemonStats (\<open>meshmetricsd.py\<close>, \<open>MeshtasticTelemetryDaemon.stats\<close>)\<close>

text \<open>
  The \<open>stats\<close> dictionary of the daemon.  The two timestamps are \<open>None\<close> until they are
  first set; the seven counters are Python integers and start at 0.
\<close>

record stats =
  start_time :: "string option"
  last_poll :: "string option"
  total_polls :: int
  successful_polls :: int
  failed_polls :: int
  nodes_processed :: int
  nodes_successful :: int
  push_successful :: int
  push_failed :: int

definition init_stats :: stats where
  "init_stats =
     \<lparr>start_time = None, last_poll = None, total_polls = 0, successful_polls = 0,
      failed_polls = 0, nodes_processed = 0, nodes_successful = 0,
      push_successful = 0, push_failed = 0\<rparr>"

text \<open>
  What \<open>update_stats\<close> finds when it persists the statistics: the \<open>[monitoring]\<close> switch,
  whether \<open>os.makedirs\<close> on the directory of the stats file raises (it stands outside the
  \<open>try\<close>, so the exception leaves the method), and whether opening or dumping the file
  raises (inside the \<open>try\<close>: a warning is logged).
\<close>

record monitoring =
  enable_stats :: bool
  makedirs_raises :: bool
  dump_raises :: bool

text \<open>
  \<open>update_stats(nodes_processed, nodes_successful)\<close>.  The result is the exception that
  leaves the method (if any), the dictionary as the method leaves it, and the value
  written to the stats file (if one was written).  \<open>now\<close> is
  \<open>datetime.now().isoformat()\<close>.
\<close>

definition update_stats ::
  "monitoring \<Rightarrow> string \<Rightarrow> stats \<Rightarrow> int \<Rightarrow> int \<Rightarrow> py_error option \<times> stats \<times> stats option" where
  "update_stats mon now s np ns =
     (let s1 = s\<lparr>last_poll := Some now\<rparr>;
          s2 = s1\<lparr>total_polls := total_polls s1 + 1\<rparr>;
          s3 = s2\<lparr>nodes_processed := nodes_processed s2 + np\<rparr>;
          s4 = s3\<lparr>nodes_successful := nodes_successful s3 + ns\<rparr>;
          s5 = (if ns > 0 then s4\<lparr>successful_polls := successful_polls s4 + 1\<rparr>
                else s4\<lparr>failed_polls := failed_polls s4 + 1\<rparr>)
      in if enable_stats mon then
           (if makedirs_raises mon then (Some (OSError ''makedirs''), s5, None)
            else if dump_raises mon then (None, s5, None)
            else (None, s5, Some s5))
         else (None, s5, None))"

text \<open>The dictionary after the call, whatever happened to the file.\<close>

definition stats_after :: "py_error option \<times> stats \<times> stats option \<Rightarrow> stats" where
  "stats_after r = fst (snd r)"

section \<open>DeliveryCoordinator and PollScheduler of the daemon\<close>

record daemon_config =
  cfg_output_dir :: string
  cfg_individual_files :: bool
  cfg_atomic_writes :: bool

text \<open>
  The loop of the daemon's \<open>write_output\<close> over the per-node files: an exception of one
  write is logged and the loop goes on.
\<close>

fun daemon_write_files :: "world \<Rightarrow> bool \<Rightarrow> (path \<times> string) list \<Rightarrow> filesystem \<Rightarrow> filesystem" where
  "daemon_write_files w atomic [] fs = fs"
| "daemon_write_files w atomic ((filepath, content) # rest) fs =
     daemon_write_files w atomic rest (snd (write_one w atomic content filepath fs))"

text \<open>
  \<open>write_output(all_output_lines)\<close> of the daemon.  \<open>Path(output_dir).mkdir\<close> stands
  outside every \<open>try\<close>: when it raises, the exception leaves the method before the push
  is reached.  The result is that exception (if any), the statistics, the file system
  and the requests sent.
\<close>

definition write_output ::
  "daemon_config \<Rightarrow> world \<Rightarrow> push_gateway \<Rightarrow> (request \<Rightarrow> http_outcome) \<Rightarrow> stats
     \<Rightarrow> string list \<Rightarrow> filesystem \<Rightarrow> py_error option \<times> stats \<times> filesystem \<times> request list" where
  "write_output cfg w exporter net st all_output_lines fs =
     (if cfg_output_dir cfg \<noteq> [] \<and> mkdir_raises w then (Some (OSError ''mkdir''), st, fs, [])
      else
        (let fs' =
               (if cfg_output_dir cfg = [] then fs
                else if cfg_individual_files cfg
                then daemon_write_files w (cfg_atomic_writes cfg)
                       (daemon_individual_targets (cfg_output_dir cfg) all_output_lines) fs
                else snd (write_one w (cfg_atomic_writes cfg) (file_content all_output_lines)
                            (path_div (cfg_output_dir cfg) ''meshtastic.prom'') fs))
         in if push_url exporter \<noteq> [] then
              (case exporter_push_metrics exporter net all_output_lines of
                 (Inr True, lg, reqs) \<Rightarrow>
                   (None, st\<lparr>push_successful := push_successful st + 1\<rparr>, fs', reqs)
               | (Inr False, lg, reqs) \<Rightarrow>
                   (None, st\<lparr>push_failed := push_failed st + 1\<rparr>, fs', reqs)
               | (Inl e, lg, reqs) \<Rightarrow> (Some e, st, fs', reqs))
            else (None, st, fs', [])))"

text \<open>
  The telemetry source of a cycle: the value of the run flag when the loop reads it
  before the device of a given index, and the reading set \<open>request_telemetry\<close> returns
  for a node (it catches every exception and returns the empty dictionary then).
\<close>

record source =
  running_at :: "nat \<Rightarrow> bool"
  fetch :: "string \<Rightarrow> telemetry"

text \<open>
  The \<open>for\<close> loop of \<open>poll_devices\<close>, with its three accumulators \<open>nodes_processed\<close>,
  \<open>nodes_successful\<close> and \<open>all_output_lines\<close>.
\<close>

fun poll_loop ::
  "source \<Rightarrow> nat \<Rightarrow> device list \<Rightarrow> int \<times> int \<times> string list \<Rightarrow> py_error + int \<times> int \<times> string list" where
  "poll_loop src i [] acc = Inr acc"
| "poll_loop src i (d # ds) (np, ns, out) =
     (if \<not> running_at src i then Inr (np, ns, out)
      else
        (case d ''node_id'' of
           None \<Rightarrow> Inl (KeyError ''node_id'')
         | Some node_id \<Rightarrow>
             (let telemetry_data = fetch src node_id;
                  ns' = (if telemetry_data \<noteq> [] then ns + 1 else ns)
              in case format_prometheus_output node_id telemetry_data d of
                   Inl e \<Rightarrow> Inl e
                 | Inr output_lines \<Rightarrow> poll_loop src (i + 1) ds (np + 1, ns', out @ output_lines))))"

text \<open>
  \<open>poll_devices(devices)\<close>: the loop, the delivery (only when there are lines to
  deliver), and the statistics.  The result is the exception that leaves the method (if
  any), the statistics and the file system.
\<close>

definition poll_devices ::
  "daemon_config \<Rightarrow> monitoring \<Rightarrow> world \<Rightarrow> source \<Rightarrow> push_gateway \<Rightarrow> (request \<Rightarrow> http_outcome)
     \<Rightarrow> string \<Rightarrow> stats \<Rightarrow> device list \<Rightarrow> filesystem \<Rightarrow> py_error option \<times> stats \<times> filesystem" where
  "poll_devices cfg mon w src exporter net now st devices fs =
     (case poll_loop src 0 devices (0, 0, []) of
        Inl e \<Rightarrow> (Some e, st, fs)
      | Inr (np, ns, all_output_lines) \<Rightarrow>
          (case (if all_output_lines \<noteq> []
                 then write_output cfg w exporter net st all_output_lines fs
                 else (None, st, fs, [])) of
             (Some e, st', fs', reqs) \<Rightarrow> (Some e, st', fs')
           | (None, st', fs', reqs) \<Rightarrow>
               (case update_stats mon now st' np ns of
                  (r, st'', persisted) \<Rightarrow> (r, st'', fs'))))"

text \<open>
  The statistics the daemon can hold: those it starts with, and those left by a start,
  a delivery or a statistics update.  The counts passed to \<open>update_stats\<close> are those of
  the loop: not negative.
\<close>

inductive reachable :: "stats \<Rightarrow> bool" where
  initial: "reachable init_stats"
| started: "reachable s \<Longrightarrow> reachable (s\<lparr>start_time := Some t\<rparr>)"
| delivered:
    "reachable s \<Longrightarrow> write_output cfg w exporter net s ls fs = (r, s', fs', reqs) \<Longrightarrow> reachable s'"
| updated:
    "reachable s \<Longrightarrow> 0 \<le> np \<Longrightarrow> 0 \<le> ns \<Longrightarrow> update_stats mon now s np ns = (r, s', f)
       \<Longrightarrow> reachable s'"

section \<open>RosterLoader: the encrypted roster\<close>

text \<open>
  Bytes are characters.  \<open>base64.b64decode(data)\<close> with its default \<open>validate=False\<close> is
  \<open>binascii.a2b_base64\<close> in its lenient mode: a character outside the alphabet is
  skipped; \<open>=\<close> ends the input once it completes a group of which two or three
  characters are present; at the end of the input an incomplete group raises
  \<open>binascii.Error\<close>.  The loop carries the position in the group of four, the bits left
  over, the number of \<open>=\<close> seen in a row, and the bytes decoded.
\<close>

type_synonym bytes = string

definition b64_value :: "char \<Rightarrow> nat option" where
  "b64_value c =
     (let n = (of_char c :: nat)
      in if 65 \<le> n \<and> n \<le> 90 then Some (n - 65)
         else if 97 \<le> n \<and> n \<le> 122 then Some (n - 71)
         else if 48 \<le> n \<and> n \<le> 57 then Some (n + 4)
         else if c = CHR ''+'' then Some 62
         else if c = CHR ''/'' then Some 63
         else None)"

fun a2b_base64 :: "string \<Rightarrow> nat \<Rightarrow> nat \<Rightarrow> nat \<Rightarrow> bytes \<Rightarrow> py_error + bytes" where
  "a2b_base64 [] quad_pos leftchar pads out =
     (if quad_pos \<noteq> 0 then Inl Binascii_Error else Inr out)"
| "a2b_base64 (c # cs) quad_pos leftchar pads out =
     (if c = CHR ''='' then
        (if 2 \<le> quad_pos then
           (if 4 \<le> quad_pos + (pads + 1) then Inr out
            else a2b_base64 cs quad_pos leftchar (pads + 1) out)
         else a2b_base64 cs quad_pos leftchar pads out)
      else
        (case b64_value c of
           None \<Rightarrow> a2b_base64 cs quad_pos leftchar pads out
         | Some v \<Rightarrow>
             (if quad_pos = 0 then a2b_base64 cs 1 v 0 out
              else if quad_pos = 1
              then a2b_base64 cs 2 (v mod 16) 0 (out @ [char_of (leftchar * 4 + v div 16)])
              else if quad_pos = 2
              then a2b_base64 cs 3 (v mod 4) 0 (out @ [char_of (leftchar * 16 + v div 4)])
              else a2b_base64 cs 0 0 0 (out @ [char_of (leftchar * 64 + v)]))))"

definition b64decode :: "bytes \<Rightarrow> py_error + bytes" where
  "b64decode s = a2b_base64 s 0 0 0 []"

text \<open>
  \<open>bytes.decode('utf-8')\<close>: the text is kept in its UTF-8 form, so decoding is the check
  that the bytes are well-formed UTF-8 (no overlong form, no surrogate, nothing beyond
  U+10FFFF).
\<close>

definition continuation :: "nat \<Rightarrow> bool" where
  "continuation b = (128 \<le> b \<and> b \<le> 191)"

fun valid_utf8 :: "nat list \<Rightarrow> bool" where
  "valid_utf8 [] = True"
| "valid_utf8 (b # bs) =
     (if b < 128 then valid_utf8 bs
      else if 194 \<le> b \<and> b \<le> 223 then
        (case bs of c1 # r \<Rightarrow> continuation c1 \<and> valid_utf8 r | _ \<Rightarrow> False)
      else if 224 \<le> b \<and> b \<le> 239 then
        (case bs of
           c1 # c2 # r \<Rightarrow>
             (if b = 224 then 160 \<le> c1 \<and> c1 \<le> 191
              else if b = 237 then 128 \<le> c1 \<and> c1 \<le> 159
              else continuation c1)
             \<and> continuation c2 \<and> valid_utf8 r
         | _ \<Rightarrow> False)
      else if 240 \<le> b \<and> b \<le> 244 then
        (case bs of
           c1 # c2 # c3 # r \<Rightarrow>
             (if b = 240 then 144 \<le> c1 \<and> c1 \<le> 191
              else if b = 244 then 128 \<le> c1 \<and> c1 \<le> 143
              else continuation c1)
             \<and> continuation c2 \<and> continuation c3 \<and> valid_utf8 r
         | _ \<Rightarrow> False)
      else False)"

definition decode_utf8 :: "bytes \<Rightarrow> py_error + string" where
  "decode_utf8 bs = (if valid_utf8 (map of_char bs) then Inr bs else Inl UnicodeDecodeError)"

text \<open>
  The two primitives of the \<open>cryptography\<close> package are parameters of the model:
  \<open>pbkdf2 password salt\<close> is PBKDF2-HMAC-SHA256 with 1000 iterations and 48 bytes of
  output; \<open>aes_cbc_decrypt key iv data\<close> is AES-256 in CBC mode without padding, on data
  whose length is a multiple of the block size of 16 bytes (for any other length
  \<open>decryptor.finalize()\<close> raises \<open>ValueError\<close>, which is part of the model).
\<close>

record crypto =
  pbkdf2 :: "bytes \<Rightarrow> bytes \<Rightarrow> bytes"
  aes_cbc_decrypt :: "bytes \<Rightarrow> bytes \<Rightarrow> bytes \<Rightarrow> bytes"

text \<open>
  The removal of the padding: \<open>decrypted_data[-1]\<close> raises \<open>IndexError\<close> on empty data;
  \<open>decrypted_data[:-padding_length]\<close> is empty when \<open>padding_length\<close> is 0 (the slice
  \<open>[:0]\<close>) or at least the length of the data.
\<close>

definition remove_padding :: "bytes \<Rightarrow> py_error + bytes" where
  "remove_padding decrypted_data =
     (if decrypted_data = [] then Inl IndexError
      else
        (let padding_length = (of_char (last decrypted_data) :: nat)
         in if padding_length = 0 then Inr []
            else Inr (take (length decrypted_data - padding_length) decrypted_data)))"

text \<open>
  \<open>decrypt_device_file(filepath, password)\<close>, of the daemon and of the collector alike,
  on the bytes read from the file, with the \<open>cryptography\<close> package installed.
\<close>

definition decrypt_device_file :: "crypto \<Rightarrow> bytes \<Rightarrow> string \<Rightarrow> py_error + string" where
  "decrypt_device_file cr file_bytes password =
     (let encrypted_data = (case b64decode file_bytes of Inr d \<Rightarrow> d | Inl e \<Rightarrow> file_bytes);
          salted = (take 8 encrypted_data = ''Salted__'');
          salt = (if salted then take 8 (drop 8 encrypted_data) else ''12345678'');
          encrypted_data' = (if salted then drop 16 encrypted_data else encrypted_data);
          key_iv = pbkdf2 cr password salt;
          key = take 32 key_iv;
          iv = take 16 (drop 32 key_iv)
      in if length encrypted_data' mod 16 \<noteq> 0
         then Inl (ValueError ''The length of the provided data is not a multiple of the block length.'')
         else bind (remove_padding (aes_cbc_decrypt cr key iv encrypted_data')) decode_utf8)"

text \<open>
  \<open>parse_device_file(filepath, password)\<close> with a password: the decrypted text is split
  into lines, blank lines and \<open>#\<close> comments go, and \<open>csv.reader\<close> (a parameter of the
  model) turns the lines into rows, of which the first five fields, stripped, make a
  device.
\<close>

definition is_space :: "char \<Rightarrow> bool" where
  "is_space c = (let n = (of_char c :: nat) in (9 \<le> n \<and> n \<le> 13) \<or> (28 \<le> n \<and> n \<le> 32))"

definition strip :: "string \<Rightarrow> string" where
  "strip s = rev (dropWhile is_space (rev (dropWhile is_space s)))"

fun split_lines :: "string \<Rightarrow> string list" where
  "split_lines [] = [[]]"
| "split_lines (c # cs) =
     (if c = CHR 0x0A then [] # split_lines cs
      else (case split_lines cs of l # ls \<Rightarrow> (c # l) # ls | [] \<Rightarrow> [[c]]))"

definition field :: "string list \<Rightarrow> nat \<Rightarrow> string" where
  "field row i = (if i < length row then strip (row ! i) else [])"

definition device_of_row :: "string list \<Rightarrow> device" where
  "device_of_row row =
     [''node_id'' \<mapsto> field row 0, ''contact_name'' \<mapsto> field row 1, ''location'' \<mapsto> field row 2,
      ''latitude'' \<mapsto> field row 3, ''longitude'' \<mapsto> field row 4]"

definition parse_content :: "(string list \<Rightarrow> string list list) \<Rightarrow> string \<Rightarrow> device list" where
  "parse_content csv_reader content =
     (let lines = map strip (filter (\<lambda>l. strip l \<noteq> [] \<and> take 1 (strip l) \<noteq> ''#'')
                               (split_lines content))
      in map device_of_row (filter (\<lambda>row. 1 \<le> length row) (csv_reader lines)))"

definition parse_device_file ::
  "crypto \<Rightarrow> (string list \<Rightarrow> string list list) \<Rightarrow> bytes \<Rightarrow> string \<Rightarrow> py_error + device list" where
  "parse_device_file cr csv_reader file_bytes password =
     bind (decrypt_device_file cr file_bytes password) (\<lambda>content. Inr (parse_content csv_reader content))"

section \<open>Concrete values\<close>







definition example_monitoring :: monitoring where
  "example_monitoring = \<lparr>enable_stats = True, makedirs_raises = False, dump_raises = False\<rparr>"












text \<open>
  Two encryptions of the roster \<open>!a1b2c3d4,Base\<close> (one line) under the password
  \<open>right\<close>, as \<open>openssl enc -aes-256-cbc -pbkdf2 -iter 1000 -md sha256 -salt\<close> wrote
  them: one with \<open>-a\<close> (base64), one without.  \<open>wrong_block\<close> and \<open>wrong14_block\<close> are
  what AES-256-CBC makes of the ciphertext of the first under the key and IV derived
  from the passwords \<open>wrong\<close> and \<open>wrong14\<close>.
\<close>

definition b64_roster_file :: bytes where
  "b64_roster_file = ''U2FsdGVkX1/Y5BimiLjJ7dWxU2ouvnoMD5xHVXkb5zo=\<newline>''"

definition b64_roster_salt :: bytes where
  "b64_roster_salt =
     [CHR 0xD8, CHR 0xE4, CHR 0x18, CHR 0xA6, CHR 0x88, CHR 0xB8, CHR 0xC9, CHR 0xED]"

definition b64_roster_ciphertext :: bytes where
  "b64_roster_ciphertext =
     [CHR 0xD5, CHR 0xB1, CHR 0x53, CHR 0x6A, CHR 0x2E, CHR 0xBE, CHR 0x7A, CHR 0x0C,
      CHR 0x0F, CHR 0x9C, CHR 0x47, CHR 0x55, CHR 0x79, CHR 0x1B, CHR 0xE7, CHR 0x3A]"

definition wrong_block :: bytes where
  "wrong_block =
     [CHR 0x74, CHR 0x63, CHR 0xA4, CHR 0xD2, CHR 0x9B, CHR 0x91, CHR 0x20, CHR 0x82,
      CHR 0xFC, CHR 0xA5, CHR 0x90, CHR 0x41, CHR 0xF0, CHR 0x3B, CHR 0x22, CHR 0x75]"

definition wrong14_block :: bytes where
  "wrong14_block =
     [CHR 0x71, CHR 0xFC, CHR 0xA4, CHR 0xF0, CHR 0xEC, CHR 0xFA, CHR 0x77, CHR 0xD1,
      CHR 0xFB, CHR 0x3A, CHR 0xFB, CHR 0xB2, CHR 0xBE, CHR 0x4C, CHR 0xA4, CHR 0x0F]"

definition raw_roster_file :: bytes where
  "raw_roster_file =
     [CHR 0x53, CHR 0x61, CHR 0x6C, CHR 0x74, CHR 0x65, CHR 0x64, CHR 0x5F, CHR 0x5F,
      CHR 0x6C, CHR 0xF6, CHR 0x84, CHR 0x8A, CHR 0xB1, CHR 0xB0, CHR 0x11, CHR 0x23,
      CHR 0x5B, CHR 0x01, CHR 0xD8, CHR 0x79, CHR 0xF8, CHR 0xE9, CHR 0x67, CHR 0xD9,
      CHR 0x18, CHR 0x95, CHR 0x9A, CHR 0x47, CHR 0xF1, CHR 0x45, CHR 0x6C, CHR 0xE3]"

text \<open>What the lenient base64 decoder makes of \<open>raw_roster_file\<close>.\<close>

definition raw_roster_decoded :: bytes where
  "raw_roster_decoded =
     [CHR 0x49, CHR 0xA9, CHR 0x6D, CHR 0x79, CHR 0xD9, CHR 0x72, CHR 0x80, CHR 0x61,
      CHR 0x25]"

text \<open>
  A stand-in for the \<open>cryptography\<close> package that agrees with it on the ciphertext of
  \<open>b64_roster_file\<close> under the two wrong passwords, and a \<open>csv.reader\<close> for lines without
  comma or quote.
\<close>

definition standin_crypto :: crypto where
  "standin_crypto =
     \<lparr>pbkdf2 = (\<lambda>password salt. password @ replicate (48 - length password) (CHR 0x00)),
      aes_cbc_decrypt = (\<lambda>key iv data. if take 7 key = ''wrong14'' then wrong14_block else wrong_block)\<rparr>"

definition one_field_reader :: "string list \<Rightarrow> string list list" where
  "one_field_reader lines = map (\<lambda>l. [l]) lines"

section \<open>Properties of the statistics\<close>

lemma write_output_stats:
  assumes "write_output cfg w exporter net s ls fs = (r, s', fs', reqs)"
  shows "s' = s \<or> s' = s\<lparr>push_successful := push_successful s + 1\<rparr>
           \<or> s' = s\<lparr>push_failed := push_failed s + 1\<rparr>"
  using assms
  by (auto simp: write_output_def Let_def split: if_splits prod.splits sum.splits bool.splits)

lemma update_stats_after:
  "stats_after (update_stats mon now s np ns) =
     (if 0 < ns
      then s\<lparr>last_poll := Some now, total_polls := total_polls s + 1,
             nodes_processed := nodes_processed s + np,
             nodes_successful := nodes_successful s + ns,
             successful_polls := successful_polls s + 1\<rparr>
      else s\<lparr>last_poll := Some now, total_polls := total_polls s + 1,
             nodes_processed := nodes_processed s + np,
             nodes_successful := nodes_successful s + ns,
             failed_polls := failed_polls s + 1\<rparr>)"
  by (simp add: update_stats_def stats_after_def Let_def)

lemma update_stats_result:
  "update_stats mon now s np ns = (r, s', f) \<Longrightarrow> s' = stats_after (update_stats mon now s np ns)"
  by (simp add: stats_after_def)

lemma reachable_polls:
  "reachable s \<Longrightarrow> total_polls s = successful_polls s + failed_polls s"
proof (induction rule: reachable.induct)
  case initial
  show ?case by (simp add: init_stats_def)
next
  case (started s t)
  then show ?case by simp
next
  case (delivered s cfg w exporter net ls fs r s' fs' reqs)
  from write_output_stats [OF delivered.hyps(2)] delivered.IH show ?case by auto
next
  case (updated s np ns mon now r s' f)
  from update_stats_result [OF updated.hyps(4)] updated.IH show ?case
    by (simp add: update_stats_after)
qed

text \<open>
  Claim C9.  A statistics update at the end of a cycle, with the two counts of the loop
  (\<open>np\<close> devices processed, \<open>ns\<close> of them with a reading set that was not empty; neither
  is negative): \<open>total_polls\<close> grows by exactly 1; exactly one of \<open>successful_polls\<close> and
  \<open>failed_polls\<close> grows, by exactly 1, and it is \<open>successful_polls\<close> if and only if
  \<open>ns\<close> is positive; no counter decreases; and in every state the daemon can hold,
  before and after the update, \<open>total_polls\<close> is the sum of \<open>successful_polls\<close> and
  \<open>failed_polls\<close>.
\<close>

theorem update_stats_counters:
  assumes "0 \<le> np" and "0 \<le> ns"
  shows "let s' = stats_after (update_stats mon now s np ns) in
           total_polls s' = total_polls s + 1
         \<and> (if 0 < ns
            then successful_polls s' = successful_polls s + 1 \<and> failed_polls s' = failed_polls s
            else successful_polls s' = successful_polls s \<and> failed_polls s' = failed_polls s + 1)
         \<and> nodes_processed s \<le> nodes_processed s' \<and> nodes_successful s \<le> nodes_successful s'
         \<and> push_successful s \<le> push_successful s' \<and> push_failed s \<le> push_failed s'
         \<and> (reachable s \<longrightarrow>
               reachable s'
             \<and> total_polls s = successful_polls s + failed_polls s
             \<and> total_polls s' = successful_polls s' + failed_polls s')"
proof -
  obtain r s' f where u: "update_stats mon now s np ns = (r, s', f)"
    by (cases "update_stats mon now s np ns") auto
  have s': "s' = stats_after (update_stats mon now s np ns)"
    using u by (rule update_stats_result)
  have reach: "reachable s \<Longrightarrow> reachable s'"
    using assms u by (rule reachable.updated [rotated 1])
  have inv: "reachable s \<Longrightarrow> total_polls s = successful_polls s + failed_polls s
      \<and> total_polls s' = successful_polls s' + failed_polls s'"
    using reach reachable_polls by blast
  show ?thesis
    unfolding Let_def s' [symmetric]
    using assms reach inv by (simp add: s' update_stats_after)
qed

theorem update_stats_counters_witness:
  "(0::int) \<le> 3 \<and> (0::int) \<le> 2 \<and> reachable init_stats
   \<and> total_polls (stats_after (update_stats example_monitoring ''2026-01-01T00:00:00'' init_stats 3 2)) = 1
   \<and> successful_polls (stats_after (update_stats example_monitoring ''2026-01-01T00:00:00'' init_stats 3 2)) = 1
   \<and> failed_polls (stats_after (update_stats example_monitoring ''2026-01-01T00:00:00'' init_stats 3 2)) = 0
   \<and> reachable (stats_after (update_stats example_monitoring ''2026-01-01T00:00:00'' init_stats 3 2))"
proof -
  have a: "(0::int) \<le> 3" and b: "(0::int) \<le> 2" by simp_all
  have z: "total_polls init_stats = 0" "successful_polls init_stats = 0" "failed_polls init_stats = 0"
    by (simp_all add: init_stats_def)
  from update_stats_counters [OF a b, of example_monitoring "''2026-01-01T00:00:00''" init_stats]
    reachable.initial z
  show ?thesis
    by (simp add: Let_def)
qed

section \<open>Properties of the daemon's renderer\<close>

lemma bind_Inl [simp]: "bind (Inl e) k = Inl e"
  by (simp add: bind_def)

lemma bind_Inr [simp]: "bind (Inr a) k = k a"
  by (simp add: bind_def)

lemma globals_clean_node_id: "map_of daemon_globals ''clean_node_id'' = None"
  by (simp add: daemon_globals_def)

lemma load_clean_node_id:
  "map_of locals ''clean_node_id'' = None \<Longrightarrow> load_name locals ''clean_node_id'' = Inl (NameError ''clean_node_id'')"
  by (simp add: load_name_def globals_clean_node_id)

lemma load_metric_name:
  "load_name ((''key'', k) # (''value'', t) # (''metric_name'', m) # locals) ''metric_name'' = Inr m"
  by (simp add: load_name_def)

lemma daemon_readings_raises:
  assumes "map_of locals ''clean_node_id'' = None" and "telemetry_data \<noteq> []"
  shows "daemon_readings locals telemetry_data = Inl (NameError ''clean_node_id'')"
proof (cases telemetry_data)
  case Nil
  with assms show ?thesis by simp
next
  case (Cons kv rest)
  obtain key v where kv: "kv = (key, v)" by (cases kv)
  have "load_name ((''key'', key) # (''value'', text_of v) # (''metric_name'', metric_name key) # locals)
          ''clean_node_id'' = Inl (NameError ''clean_node_id'')"
    using assms(1) by (intro load_clean_node_id) simp
  then show ?thesis
    unfolding Cons kv by (simp add: Let_def load_metric_name)
qed

lemma daemon_metadata_cases:
  assumes "map_of locals ''clean_node_id'' = None"
  shows "daemon_metadata locals device_info = Inr []
       \<or> daemon_metadata locals device_info = Inl (NameError ''clean_node_id'')"
  using load_clean_node_id [OF assms]
  by (simp add: daemon_metadata_def split: option.split)

lemma renderer_raises:
  "format_prometheus_output node_id telemetry_data device_info = Inl (NameError ''clean_node_id'')"
proof -
  let ?locals = "[(''node_id'', node_id), (''telemetry_data'', ''<dict>''),
                  (''device_info'', ''<dict>''), (''output_lines'', ''<list>''),
                  (''self'', ''<object>'')]"
  have none: "map_of ?locals ''clean_node_id'' = None" by simp
  have up: "load_name ((''up_value'', u) # ?locals) ''clean_node_id'' = Inl (NameError ''clean_node_id'')" for u
    by (rule load_clean_node_id) simp
  show ?thesis
  proof (cases "telemetry_data = []")
    case True
    from daemon_metadata_cases [OF none, of device_info] show ?thesis
      unfolding format_prometheus_output_def Let_def True
      by (auto simp: up)
  next
    case False
    from daemon_readings_raises [OF none False] show ?thesis
      unfolding format_prometheus_output_def Let_def by simp
  qed
qed

text \<open>
  So the loop of \<open>poll_devices\<close> returns only when it processed no device, with its
  accumulators as they were.
\<close>

lemma poll_loop_returns:
  "poll_loop src i devices acc = Inr r \<Longrightarrow> r = acc"
proof (cases devices)
  case Nil
  assume "poll_loop src i devices acc = Inr r"
  with Nil show ?thesis by simp
next
  case (Cons d ds)
  assume a: "poll_loop src i devices acc = Inr r"
  obtain np ns out where acc: "acc = (np, ns, out)" by (cases acc)
  from a show ?thesis
    unfolding Cons acc
    by (simp add: renderer_raises Let_def split: if_splits option.splits)
qed

text \<open>
  A poll cycle of this daemon therefore either ends in an exception, with the statistics
  and the files untouched, or processed no device, made no delivery, and is counted as
  a poll without successful node.
\<close>

lemma poll_devices_cycle:
  assumes "poll_devices cfg mon w src exporter net now st devices fs = (r, st', fs')"
  shows "(\<exists>e. r = Some e \<and> st' = st \<and> fs' = fs)
       \<or> (st' = stats_after (update_stats mon now st 0 0) \<and> fs' = fs)"
proof (cases "poll_loop src 0 devices (0, 0, [])")
  case (Inl e)
  with assms show ?thesis by (auto simp: poll_devices_def)
next
  case (Inr acc)
  from poll_loop_returns [OF Inr] have acc: "acc = (0, 0, [])" .
  from assms show ?thesis
    unfolding poll_devices_def Inr acc
    by (cases "update_stats mon now st 0 0") (auto simp: stats_after_def)
qed

text \<open>
  Claim C2.  For every node identifier, reading set and device metadata, the daemon's
  \<open>format_prometheus_output\<close> raises \<open>NameError\<close> for \<open>clean_node_id\<close>: every line it
  would emit needs that name, the function never binds it and neither does the module,
  so no call returns lines.
\<close>

theorem format_prometheus_output_raises:
  "format_prometheus_output node_id telemetry_data device_info = Inl (NameError ''clean_node_id'')"
  by (rule renderer_raises)

section \<open>Properties of the renderer\<close>

lemma metric_of_line_label:
  "metric_of_line (n @ CHR ''{'' # rest) = metric_of_line n"
  by (induction n) (simp_all add: metric_of_line_def)

lemma metric_of_reading_line:
  "metric_of_line (reading_line mid (k, v)) = metric_of_line (metric_name k)"
  using metric_of_line_label [of "metric_name k"]
  by (simp add: reading_line_def)

lemma metadata_not_up:
  "filter (\<lambda>l. metric_of_line l = ''meshtastic_up'') (metadata_lines mid device_info) = []"
  by (simp add: metadata_lines_def metric_of_line_def split: option.split)

lemma up_line_is_up: "metric_of_line (up_line mid ver telemetry_data) = ''meshtastic_up''"
  by (simp add: up_line_def metric_of_line_def)

lemma readings_not_up:
  assumes "\<forall>k \<in> fst ` set telemetry_data. metric_of_line (metric_name k) \<noteq> ''meshtastic_up''"
  shows "filter (\<lambda>l. metric_of_line l = ''meshtastic_up'') (map (reading_line mid) telemetry_data) = []"
  using assms
proof (induction telemetry_data)
  case Nil
  show ?case by simp
next
  case (Cons kv rest)
  obtain k v where kv: "kv = (k, v)" by (cases kv)
  from Cons show ?case by (simp add: kv metric_of_reading_line)
qed

text \<open>
  Claim C4, as amended.  For every formatter, node identifier, reading set and metadata,
  the renderer's output is the reading lines, then the metadata lines of the fields that
  are not empty, then one \<open>meshtastic_up\<close> line, which is the last line, carries the
  \<open>version\<close> label and has the value 1 if the reading set is not empty and 0 otherwise.
  It is the only \<open>meshtastic_up\<close> metric of the output provided no reading key is
  itself rendered under that name.  For an empty reading set the output is exactly the
  metadata lines and the up line with value 0.
\<close>

theorem format_prometheus_metrics_up:
  \<open>let mid = format_node_id_for_metric f node_id;
       out = format_prometheus_metrics f node_id telemetry_data device_info;
       up = ''meshtastic_up{node="'' @ mid @ ''",version="'' @ version f @ ''"} ''
              @ (if telemetry_data \<noteq> [] then ''1'' else ''0'')
   in out = map (reading_line mid) telemetry_data @ metadata_lines mid device_info @ [up]
    \<and> last out = up
    \<and> ((\<forall>k \<in> fst ` set telemetry_data. metric_of_line (metric_name k) \<noteq> ''meshtastic_up'')
         \<longrightarrow> up_metrics out = [up])
    \<and> (telemetry_data = []
         \<longrightarrow> out = metadata_lines mid device_info
                     @ [''meshtastic_up{node="'' @ mid @ ''",version="'' @ version f @ ''"} 0''])\<close>
proof -
  let ?mid = "format_node_id_for_metric f node_id"
  have up: "metric_of_line (up_line ?mid (version f) telemetry_data) = ''meshtastic_up''"
    by (rule up_line_is_up)
  have one: "up_metrics (format_prometheus_metrics f node_id telemetry_data device_info)
               = [up_line ?mid (version f) telemetry_data]"
    if "\<forall>k \<in> fst ` set telemetry_data. metric_of_line (metric_name k) \<noteq> ''meshtastic_up''"
    using readings_not_up [OF that, of ?mid] metadata_not_up [of ?mid device_info] up
    by (simp add: up_metrics_def format_prometheus_metrics_def Let_def)
  show ?thesis
    unfolding Let_def
    using one by (simp add: format_prometheus_metrics_def Let_def up_line_def)
qed

text \<open>
  The theorem at a reading set with the key \<open>Battery\<close>, and at an empty one.
\<close>

theorem format_prometheus_metrics_up_witness:
  \<open>metric_of_line (metric_name ''Battery'') \<noteq> ''meshtastic_up''
   \<and> up_metrics (format_prometheus_metrics \<lparr>node_id_format = ''default'', version = ''v1''\<rparr> ''!a1''
        [(''Battery'', PyInt 87)] Map.empty)
      = [''meshtastic_up{node="!a1",version="v1"} 1'']
   \<and> format_prometheus_metrics \<lparr>node_id_format = ''default'', version = ''v1''\<rparr> ''!a1'' []
        [''contact_name'' \<mapsto> ''Base'']
      = [''meshtastic_contact{node="!a1",contact="Base"} 1'', ''meshtastic_up{node="!a1",version="v1"} 0'']\<close>
proof -
  let ?f = "\<lparr>node_id_format = ''default'', version = ''v1''\<rparr>"
  have k: "\<forall>k \<in> fst ` set [(''Battery'', PyInt 87)]. metric_of_line (metric_name k) \<noteq> ''meshtastic_up''"
    by (simp add: metric_of_line_def metric_name_def lower_def lower_char_def replace_def)
  have m: \<open>metadata_lines ''!a1'' [''contact_name'' \<mapsto> ''Base'']
             = [''meshtastic_contact{node="!a1",contact="Base"} 1'']\<close>
    by (simp add: metadata_lines_def truthy_field_def)
  note one = format_prometheus_metrics_up [of ?f "''!a1''" "[(''Battery'', PyInt 87)]" Map.empty,
      unfolded Let_def, THEN conjunct2, THEN conjunct2, THEN conjunct1, THEN mp, OF k]
  note none = format_prometheus_metrics_up [of ?f "''!a1''" "[]" "[''contact_name'' \<mapsto> ''Base'']",
      unfolded Let_def, THEN conjunct2, THEN conjunct2, THEN conjunct2, THEN mp, OF refl]
  have id: "format_node_id_for_metric ?f ''!a1'' = ''!a1''"
    by (simp add: format_node_id_for_metric_def)
  show ?thesis
    using k one none by (simp add: id m)
qed

text \<open>
  Claim C4 as stated fails: a reading with the key \<open>up\<close> is rendered as a second
  \<open>meshtastic_up\<close> metric.
\<close>

theorem up_metric_twice:
  \<open>up_metrics (format_prometheus_metrics \<lparr>node_id_format = ''default'', version = ''MTM-v0.98-Daemon''\<rparr>
       ''!a1b2c3d4'' [(''up'', PyInt 5)] Map.empty)
   = [''meshtastic_up{node="!a1b2c3d4"} 5'',
      ''meshtastic_up{node="!a1b2c3d4",version="MTM-v0.98-Daemon"} 1'']\<close>
  by code_simp

lemma spans_iff: "(m, r) \<in> set (spans p s) \<longleftrightarrow> s = m @ r \<and> list_all p m"
proof (induction s arbitrary: m r)
  case Nil
  show ?case by auto
next
  case (Cons c cs)
  show ?case
  proof (cases "p c")
    case True
    show ?thesis
    proof (cases m)
      case Nil
      with True Cons show ?thesis by auto
    next
      case (Cons a m')
      with True Cons.IH [of m' r] show ?thesis by auto
    qed
  next
    case False
    then show ?thesis by (cases m) auto
  qed
qed

lemma step_Opt_iff:
  "(m, r) \<in> set (step (p, Opt) s) \<longleftrightarrow> s = m @ r \<and> (m = [] \<or> (\<exists>c. m = [c] \<and> p c))"
  by (cases s) auto

lemma step_Plus_iff:
  "(m, r) \<in> set (step (p, Plus) s) \<longleftrightarrow> s = m @ r \<and> m \<noteq> [] \<and> list_all p m"
  by (auto simp: spans_iff)

lemma step_Star_iff:
  "(m, r) \<in> set (step (p, Star) s) \<longleftrightarrow> s = m @ r \<and> list_all p m"
  by (simp add: spans_iff)

lemma match_here_Nil_iff: "(ms, r) \<in> set (match_here [] s) \<longleftrightarrow> ms = [] \<and> r = s"
  by auto

lemma match_here_Cons_iff:
  "(ms, r) \<in> set (match_here (it # its) s) \<longleftrightarrow>
     (\<exists>m r1 ms'. (m, r1) \<in> set (step it s) \<and> (ms', r) \<in> set (match_here its r1) \<and> ms = m # ms')"
  by (force simp del: step.simps)

lemma numeric_items_iff:
  "(ms, r) \<in> set (match_here numeric_items s) \<longleftrightarrow>
     (\<exists>sg d1 dt d2. ms = [sg, d1, dt, d2] \<and> s = sg @ d1 @ dt @ d2 @ r
        \<and> (sg = [] \<or> (\<exists>c. sg = [c] \<and> is_sign c))
        \<and> d1 \<noteq> [] \<and> list_all is_digit d1
        \<and> (dt = [] \<or> dt = ''.'')
        \<and> list_all is_digit d2)"
  unfolding numeric_items_def match_here_Cons_iff match_here_Nil_iff
    step_Opt_iff step_Plus_iff step_Star_iff
  by auto

lemma re_match_numeric_iff:
  "re_match_numeric s \<longleftrightarrow>
     (\<exists>sg d1 dt d2 r. s = sg @ d1 @ dt @ d2 @ r
        \<and> (sg = [] \<or> (\<exists>c. sg = [c] \<and> is_sign c))
        \<and> d1 \<noteq> [] \<and> list_all is_digit d1
        \<and> (dt = [] \<or> dt = ''.'')
        \<and> list_all is_digit d2
        \<and> (r = [] \<or> r = [CHR 0x0A]))"
proof -
  have "re_match_numeric s \<longleftrightarrow> (\<exists>ms r. (ms, r) \<in> set (match_here numeric_items s) \<and> at_dollar r)"
    by (auto simp: re_match_numeric_def list_ex_iff)
  then show ?thesis
    unfolding numeric_items_iff at_dollar_def by blast
qed

lemma digit_not_sign: "is_digit c \<Longrightarrow> \<not> is_sign c"
  by (auto simp: is_digit_def is_sign_def)

lemma point_not_digit: "\<not> is_digit (CHR ''.'')"
  by (simp add: is_digit_def)

lemma newline_not_digit: "\<not> is_digit (CHR 0x0A)"
  by (simp add: is_digit_def)

lemma spec_numeric_text_iff:
  "spec_numeric_text s \<longleftrightarrow>
     (\<exists>sg d1 fr. s = sg @ d1 @ fr
        \<and> (sg = [] \<or> (\<exists>c. sg = [c] \<and> is_sign c))
        \<and> d1 \<noteq> [] \<and> list_all is_digit d1
        \<and> (fr = [] \<or> (\<exists>d2. fr = CHR ''.'' # d2 \<and> list_all is_digit d2)))"
  (is "?lhs \<longleftrightarrow> ?rhs")
proof
  assume l: ?lhs
  define body where "body = (case s of [] \<Rightarrow> [] | c # cs \<Rightarrow> if is_sign c then cs else s)"
  define sg where "sg = (case s of [] \<Rightarrow> [] | c # cs \<Rightarrow> if is_sign c then [c] else [])"
  have s: "s = sg @ body"
    by (cases s) (simp_all add: body_def sg_def)
  have sg: "sg = [] \<or> (\<exists>c. sg = [c] \<and> is_sign c)"
    by (cases s) (simp_all add: sg_def)
  from l have w: "takeWhile is_digit body \<noteq> []"
    and r: "case dropWhile is_digit body of [] \<Rightarrow> True
            | d # frac \<Rightarrow> d = CHR ''.'' \<and> list_all is_digit frac"
    by (simp_all add: spec_numeric_text_def Let_def body_def)
  have b: "body = takeWhile is_digit body @ dropWhile is_digit body"
    by simp
  have d: "list_all is_digit (takeWhile is_digit body)"
    by (simp add: list_all_iff) (meson set_takeWhileD)
  from r have f: "dropWhile is_digit body = []
      \<or> (\<exists>d2. dropWhile is_digit body = CHR ''.'' # d2 \<and> list_all is_digit d2)"
    by (cases "dropWhile is_digit body") auto
  from s b have "s = sg @ takeWhile is_digit body @ dropWhile is_digit body"
    by simp
  with sg w d f show ?rhs by blast
next
  assume ?rhs
  then obtain sg d1 fr where s: "s = sg @ d1 @ fr"
    and sg: "sg = [] \<or> (\<exists>c. sg = [c] \<and> is_sign c)"
    and d1: "d1 \<noteq> []" "list_all is_digit d1"
    and fr: "fr = [] \<or> (\<exists>d2. fr = CHR ''.'' # d2 \<and> list_all is_digit d2)"
    by blast
  from d1 obtain a d1' where a: "d1 = a # d1'" "is_digit a"
    by (cases d1) auto
  have body: "(case s of [] \<Rightarrow> [] | c # cs \<Rightarrow> if is_sign c then cs else s) = d1 @ fr"
    using sg s a digit_not_sign [OF a(2)] by auto
  have tw: "takeWhile is_digit (d1 @ fr) = d1"
    using d1(2) fr point_not_digit by (auto simp: list_all_iff takeWhile_append2 simp del: takeWhile_append)
  have dw: "dropWhile is_digit (d1 @ fr) = fr"
    using d1(2) fr point_not_digit by (auto simp: list_all_iff dropWhile_append2 simp del: dropWhile_append)
  from d1(1) fr show ?lhs
    unfolding spec_numeric_text_def Let_def body tw dw by auto
qed

text \<open>
  The pattern of the renderer against the contract of the specification: they agree
  but for one newline at the end of the text, which the pattern lets pass.
\<close>

lemma re_match_numeric_spec:
  "re_match_numeric s \<longleftrightarrow>
     spec_numeric_text s \<or> (\<exists>t. s = t @ [CHR 0x0A] \<and> spec_numeric_text t)"
  (is "?lhs \<longleftrightarrow> ?rhs")
proof
  assume ?lhs
  then obtain sg d1 dt d2 r where s: "s = sg @ d1 @ dt @ d2 @ r"
    and sg: "sg = [] \<or> (\<exists>c. sg = [c] \<and> is_sign c)"
    and d1: "d1 \<noteq> []" "list_all is_digit d1"
    and dt: "dt = [] \<or> dt = ''.''"
    and d2: "list_all is_digit d2"
    and r: "r = [] \<or> r = [CHR 0x0A]"
    unfolding re_match_numeric_iff by blast
  have t: "spec_numeric_text (sg @ d1 @ dt @ d2)"
  proof (cases "dt = []")
    case True
    have "sg @ d1 @ dt @ d2 = sg @ (d1 @ d2) @ []" using True by simp
    moreover have "d1 @ d2 \<noteq> []" "list_all is_digit (d1 @ d2)" using d1 d2 by simp_all
    ultimately show ?thesis
      unfolding spec_numeric_text_iff using sg by blast
  next
    case False
    with dt have "sg @ d1 @ dt @ d2 = sg @ d1 @ (CHR ''.'' # d2)" by simp
    with sg d1 d2 show ?thesis
      unfolding spec_numeric_text_iff by blast
  qed
  from r show ?rhs
  proof
    assume "r = []"
    with s t show ?thesis by simp
  next
    assume "r = [CHR 0x0A]"
    with s have "s = (sg @ d1 @ dt @ d2) @ [CHR 0x0A]" by simp
    with t show ?thesis by blast
  qed
next
  have dec: "\<exists>sg d1 dt d2. t = sg @ d1 @ dt @ d2
        \<and> (sg = [] \<or> (\<exists>c. sg = [c] \<and> is_sign c))
        \<and> d1 \<noteq> [] \<and> list_all is_digit d1
        \<and> (dt = [] \<or> dt = ''.'')
        \<and> list_all is_digit d2" if "spec_numeric_text t" for t
  proof -
    from that obtain sg d1 fr where t: "t = sg @ d1 @ fr"
      and sg: "sg = [] \<or> (\<exists>c. sg = [c] \<and> is_sign c)"
      and d1: "d1 \<noteq> []" "list_all is_digit d1"
      and fr: "fr = [] \<or> (\<exists>d2. fr = CHR ''.'' # d2 \<and> list_all is_digit d2)"
      unfolding spec_numeric_text_iff by blast
    from fr show ?thesis
    proof
      assume "fr = []"
      with t have "t = sg @ d1 @ [] @ []" by simp
      moreover have "list_all is_digit []" by simp
      ultimately show ?thesis using sg d1 by blast
    next
      assume "\<exists>d2. fr = CHR ''.'' # d2 \<and> list_all is_digit d2"
      then obtain d2 where "fr = CHR ''.'' # d2" "list_all is_digit d2" by blast
      with t have "t = sg @ d1 @ ''.'' @ d2" by simp
      with sg d1 \<open>list_all is_digit d2\<close> show ?thesis by blast
    qed
  qed
  assume ?rhs
  then show ?lhs
  proof
    assume "spec_numeric_text s"
    from dec [OF this] obtain sg d1 dt d2 where e: "s = sg @ d1 @ dt @ d2"
      and c: "sg = [] \<or> (\<exists>c. sg = [c] \<and> is_sign c)" "d1 \<noteq> []" "list_all is_digit d1"
        "dt = [] \<or> dt = ''.''" "list_all is_digit d2"
      by blast
    from e have "s = sg @ d1 @ dt @ d2 @ []" by simp
    with c show ?thesis unfolding re_match_numeric_iff by blast
  next
    assume "\<exists>t. s = t @ [CHR 0x0A] \<and> spec_numeric_text t"
    then obtain t where s: "s = t @ [CHR 0x0A]" and t: "spec_numeric_text t" by blast
    from dec [OF t] obtain sg d1 dt d2 where "t = sg @ d1 @ dt @ d2"
      and c: "sg = [] \<or> (\<exists>c. sg = [c] \<and> is_sign c)" "d1 \<noteq> []" "list_all is_digit d1"
        "dt = [] \<or> dt = ''.''" "list_all is_digit d2"
      by blast
    with s have "s = sg @ d1 @ dt @ d2 @ [CHR 0x0A]" by simp
    with c show ?thesis unfolding re_match_numeric_iff by blast
  qed
qed

text \<open>
  Hence the line of a reading, in the words of the specification: a number, or a text of
  the numeric form (with or without one newline after it), is carried bare; everything
  else under a \<open>str\<close> label with the value 1.
\<close>

lemma reading_line_spec:
  \<open>reading_line mid (key, v) =
     (if (case v of PyStr s \<Rightarrow> spec_numeric_text s \<or> (\<exists>t. s = t @ [CHR 0x0A] \<and> spec_numeric_text t)
          | PyOther t \<Rightarrow> False | _ \<Rightarrow> True)
      then ''meshtastic_'' @ replace (CHR '' '') ''_'' (lower key) @ ''{node="'' @ mid @ ''"} '' @ text_of v
      else ''meshtastic_'' @ replace (CHR '' '') ''_'' (lower key) @ ''{node="'' @ mid @ ''",str="''
             @ text_of v @ ''"} 1'')\<close>
  by (cases v) (simp_all add: reading_line_def metric_name_def re_match_numeric_spec)

text \<open>
  Claim C3 at the text \<open>73\<close> followed by a newline: it is not of the form sign, digits,
  fractional part, yet the pattern of the renderer accepts it (\<open>$\<close> also matches before
  a final newline), and the line carries it as a bare value instead of a \<open>str\<close> label.
\<close>

theorem trailing_newline_rendered_bare:
  \<open>format_prometheus_metrics \<lparr>node_id_format = ''default'', version = ''MTM-v0.98-Daemon''\<rparr>
       ''!a1b2c3d4'' [(''Battery'', PyStr ''73\<newline>'')] Map.empty
   = [''meshtastic_battery{node="!a1b2c3d4"} 73\<newline>'',
      ''meshtastic_up{node="!a1b2c3d4",version="MTM-v0.98-Daemon"} 1'']
   \<and> \<not> spec_numeric_text ''73\<newline>''\<close>
  by code_simp

section \<open>Properties of per-node files\<close>

lemma set_replace: "set (replace old new s) \<subseteq> (set s - {old}) \<union> set new"
  by (induction s) (auto simp: replace_def)

lemma sanitize_filename_chars:
  "CHR ''!'' \<notin> set (sanitize_filename node_id)"
  "CHR ''/'' \<notin> set (sanitize_filename node_id)"
  "CHR 0x5C \<notin> set (sanitize_filename node_id)"
proof -
  let ?a = "replace (CHR ''!'') [] node_id"
  let ?b = "replace (CHR ''/'') ''_'' ?a"
  have a: "CHR ''!'' \<notin> set ?a"
    using set_replace [of "CHR ''!''" "[]" node_id] by auto
  have b: "CHR ''!'' \<notin> set ?b" "CHR ''/'' \<notin> set ?b"
    using set_replace [of "CHR ''/''" "''_''" ?a] a by auto
  have c: "set (sanitize_filename node_id) \<subseteq> (set ?b - {CHR 0x5C}) \<union> set ''_''"
    unfolding sanitize_filename_def by (rule set_replace)
  show "CHR ''!'' \<notin> set (sanitize_filename node_id)"
    and "CHR ''/'' \<notin> set (sanitize_filename node_id)"
    and "CHR 0x5C \<notin> set (sanitize_filename node_id)"
    using b c by auto
qed

lemma individual_filename_plain: "plain_file_name (individual_filename node_id)"
  using sanitize_filename_chars [of node_id]
  by (simp add: plain_file_name_def individual_filename_def)

lemma path_div_plain: "CHR ''/'' \<notin> set name \<Longrightarrow> path_div d name = (d, name)"
  by (simp add: path_div_def)

text \<open>
  Claim C6, as amended.  For every node identifier, the file name \<open>PrometheusFileWriter\<close>
  derives in per-node mode is a plain file name (no path separator, neither \<open>.\<close> nor
  \<open>..\<close>) without sigil, so joining it to the output directory names a file of that
  directory; and every file that \<open>_write_individual_files\<close> writes has such a path,
  derived from a node label of the grouping.
\<close>

theorem individual_file_names_plain:
  "plain_file_name (individual_filename node_id)
   \<and> CHR ''!'' \<notin> set (individual_filename node_id)
   \<and> path_div output_dir (individual_filename node_id) = (output_dir, individual_filename node_id)
   \<and> (\<forall>(p, c) \<in> set (individual_targets output_dir all_output_lines).
         fst p = output_dir \<and> plain_file_name (snd p)
       \<and> (\<exists>n ls. (n, ls) \<in> set (node_outputs all_output_lines)
                  \<and> snd p = individual_filename n \<and> c = file_content ls))"
proof -
  have plain: "plain_file_name (individual_filename n)" for n
    by (rule individual_filename_plain)
  have div: "path_div output_dir (individual_filename n) = (output_dir, individual_filename n)" for n
    using plain [of n] by (intro path_div_plain) (simp add: plain_file_name_def)
  have bang: "CHR ''!'' \<notin> set (individual_filename node_id)"
    using sanitize_filename_chars(1) [of node_id] by (simp add: individual_filename_def)
  have all: "fst p = output_dir \<and> plain_file_name (snd p)
       \<and> (\<exists>n ls. (n, ls) \<in> set (node_outputs all_output_lines)
                  \<and> snd p = individual_filename n \<and> c = file_content ls)"
    if "(p, c) \<in> set (individual_targets output_dir all_output_lines)" for p c
  proof -
    from that obtain n ls where in_groups: "(n, ls) \<in> set (node_outputs all_output_lines)"
      and p: "p = path_div output_dir (individual_filename n)" and c: "c = file_content ls"
      by (auto simp: individual_targets_def)
    from p div [of n] have "fst p = output_dir" "snd p = individual_filename n" by simp_all
    with plain [of n] in_groups c show ?thesis by auto
  qed
  from plain div bang all show ?thesis by blast
qed

text \<open>
  The theorem at one line of the node \<open>!x/y\<close>.
\<close>

theorem individual_file_names_plain_witness:
  \<open>((''/out'', ''meshtastic-x_y.prom''), ''meshtastic_up{node="!x/y"} 1\<newline>'')
      \<in> set (individual_targets ''/out'' [''meshtastic_up{node="!x/y"} 1''])
   \<and> plain_file_name ''meshtastic-x_y.prom''
   \<and> path_div ''/out'' (individual_filename ''!x/y'') = (''/out'', ''meshtastic-x_y.prom'')\<close>
proof -
  have t: \<open>individual_targets ''/out'' [''meshtastic_up{node="!x/y"} 1'']
            = [((''/out'', ''meshtastic-x_y.prom''), ''meshtastic_up{node="!x/y"} 1\<newline>'')]\<close>
    by code_simp
  have n: "individual_filename ''!x/y'' = ''meshtastic-x_y.prom''"
    by code_simp
  from individual_file_names_plain [of "''!x/y''" "''/out''" \<open>[''meshtastic_up{node="!x/y"} 1'']\<close>]
  show ?thesis
    unfolding t n by simp
qed

text \<open>
  Claim C6 as stated fails: the node labels \<open>!a1b2\<close> and \<open>a1b2\<close> are two groups, and both
  are written to the same file.
\<close>

theorem individual_file_collision:
  \<open>map fst (node_outputs [''meshtastic_up{node="!a1b2"} 1'', ''meshtastic_up{node="a1b2"} 0''])
     = [''!a1b2'', ''a1b2'']
   \<and> map fst (individual_targets ''/out''
       [''meshtastic_up{node="!a1b2"} 1'', ''meshtastic_up{node="a1b2"} 0''])
     = [(''/out'', ''meshtastic-a1b2.prom''), (''/out'', ''meshtastic-a1b2.prom'')]\<close>
  by code_simp

text \<open>
  The daemon's own \<open>write_output\<close> does not sanitize: a separator in the node label
  reaches the path.
\<close>

lemma daemon_individual_file_escapes:
  \<open>map fst (daemon_individual_targets ''/out'' [''meshtastic_up{node="/../../tmp/x"} 0''])
     = [(''/out/meshtastic-/../../tmp'', ''x.prom'')]\<close>
  by code_simp

section \<open>Properties of the push client and of the delivery\<close>

lemma push_attempt_requests: "snd (push_attempt gw net metrics_data) = [build_request gw metrics_data]"
  by (simp add: push_attempt_def Let_def)









section \<open>Properties of atomic publication\<close>










section \<open>Properties of the roster decryption\<close>

lemma remove_padding_returns: "d \<noteq> [] \<Longrightarrow> \<exists>p. remove_padding d = Inr p"
  by (simp add: remove_padding_def Let_def)

lemma remove_padding_error: "remove_padding d = Inl e \<Longrightarrow> e = IndexError"
  by (simp add: remove_padding_def Let_def split: if_splits)

lemma decode_utf8_error: "decode_utf8 b = Inl e \<Longrightarrow> e = UnicodeDecodeError"
  by (simp add: decode_utf8_def split: if_splits)

lemma decrypt_device_file_shape:
  "\<exists>key iv data.
     decrypt_device_file cr file_bytes password
       = (if length data mod 16 \<noteq> 0
          then Inl (ValueError ''The length of the provided data is not a multiple of the block length.'')
          else bind (remove_padding (aes_cbc_decrypt cr key iv data)) decode_utf8)"
  unfolding decrypt_device_file_def Let_def by (intro exI) (rule refl)

text \<open>
  The exceptions \<open>decrypt_device_file\<close> can raise: none of them reports a bad padding.
\<close>

lemma decrypt_device_file_errors:
  assumes "decrypt_device_file cr file_bytes password = Inl e"
  shows "e = ValueError ''The length of the provided data is not a multiple of the block length.''
       \<or> e = IndexError \<or> e = UnicodeDecodeError"
proof -
  from decrypt_device_file_shape [of cr file_bytes password] obtain key iv data where
    shape: "decrypt_device_file cr file_bytes password
       = (if length data mod 16 \<noteq> 0
          then Inl (ValueError ''The length of the provided data is not a multiple of the block length.'')
          else bind (remove_padding (aes_cbc_decrypt cr key iv data)) decode_utf8)"
    by blast
  show ?thesis
  proof (cases "length data mod 16 \<noteq> 0")
    case True
    with shape assms show ?thesis by simp
  next
    case False
    with shape assms
    have b: "bind (remove_padding (aes_cbc_decrypt cr key iv data)) decode_utf8 = Inl e"
      by simp
    show ?thesis
    proof (cases "remove_padding (aes_cbc_decrypt cr key iv data)")
      case (Inl x)
      with b have "x = e" by (simp add: bind_def)
      with Inl remove_padding_error show ?thesis by blast
    next
      case (Inr plain)
      with b have "decode_utf8 plain = Inl e" by (simp add: bind_def)
      with decode_utf8_error show ?thesis by blast
    qed
  qed
qed

text \<open>
  Claim C7 on the code.  The padding is never checked: whatever the cipher returns, its
  last byte is taken for the length of the padding and that many bytes are cut off (all
  of them when the byte is 0 or at least the length of the data); if what remains is
  well-formed UTF-8, which the empty text is, \<open>decrypt_device_file\<close> returns it, and
  \<open>parse_device_file\<close> returns the roster parsed from it.  No exception is raised.
\<close>

theorem wrong_password_returns_text:
  assumes "b64decode file_bytes = Inr (''Salted__'' @ salt @ ct)"
    and "length salt = 8" and "length ct mod 16 = 0"
    and "aes_cbc_decrypt cr (take 32 (pbkdf2 cr password salt))
           (take 16 (drop 32 (pbkdf2 cr password salt))) ct = d"
    and "d \<noteq> []"
    and "text = (if of_char (last d) = (0::nat) then []
                 else take (length d - of_char (last d)) d)"
    and "valid_utf8 (map of_char text)"
  shows "decrypt_device_file cr file_bytes password = Inr text
       \<and> parse_device_file cr csv_reader file_bytes password = Inr (parse_content csv_reader text)"
proof -
  have pad: "remove_padding d = Inr text"
    using assms(5,6) by (simp add: remove_padding_def Let_def)
  have dec: "decode_utf8 text = Inr text"
    using assms(7) by (simp add: decode_utf8_def)
  have "decrypt_device_file cr file_bytes password = Inr text"
    unfolding decrypt_device_file_def assms(1) Let_def
    using assms(2,3,4) pad dec by simp
  then show ?thesis by (simp add: parse_device_file_def)
qed

text \<open>
  The theorem at \<open>b64_roster_file\<close>, encrypted under \<open>right\<close>: with the password \<open>wrong\<close>
  the roster comes back empty, with the password \<open>wrong14\<close> it comes back as the one
  device \<open>q\<close>.
\<close>

theorem wrong_password_returns_text_witness:
  "b64decode b64_roster_file = Inr (''Salted__'' @ b64_roster_salt @ b64_roster_ciphertext)
   \<and> length b64_roster_salt = 8 \<and> length b64_roster_ciphertext mod 16 = 0
   \<and> decrypt_device_file standin_crypto b64_roster_file ''wrong'' = Inr []
   \<and> parse_device_file standin_crypto one_field_reader b64_roster_file ''wrong'' = Inr []
   \<and> decrypt_device_file standin_crypto b64_roster_file ''wrong14'' = Inr ''q''
   \<and> parse_device_file standin_crypto one_field_reader b64_roster_file ''wrong14''
       = Inr [device_of_row [''q'']]"
proof -
  have f: "b64decode b64_roster_file = Inr (''Salted__'' @ b64_roster_salt @ b64_roster_ciphertext)"
    by code_simp
  have s: "length b64_roster_salt = 8" and c: "length b64_roster_ciphertext mod 16 = 0"
    by (simp_all add: b64_roster_salt_def b64_roster_ciphertext_def)
  have d: "aes_cbc_decrypt standin_crypto (take 32 (pbkdf2 standin_crypto ''wrong'' b64_roster_salt))
           (take 16 (drop 32 (pbkdf2 standin_crypto ''wrong'' b64_roster_salt))) b64_roster_ciphertext
           = wrong_block"
    by code_simp
  have d14: "aes_cbc_decrypt standin_crypto (take 32 (pbkdf2 standin_crypto ''wrong14'' b64_roster_salt))
           (take 16 (drop 32 (pbkdf2 standin_crypto ''wrong14'' b64_roster_salt))) b64_roster_ciphertext
           = wrong14_block"
    by code_simp
  have n: "wrong_block \<noteq> []" and n14: "wrong14_block \<noteq> []"
    by (simp_all add: wrong_block_def wrong14_block_def)
  have t: "[] = (if of_char (last wrong_block) = (0::nat) then []
                 else take (length wrong_block - of_char (last wrong_block)) wrong_block)"
    by code_simp
  have t14: "''q'' = (if of_char (last wrong14_block) = (0::nat) then []
                 else take (length wrong14_block - of_char (last wrong14_block)) wrong14_block)"
    by code_simp
  have v: "valid_utf8 (map of_char ([] :: string))" and v14: "valid_utf8 (map of_char ''q'')"
    by simp_all
  have l: "map strip (filter (\<lambda>l. strip l \<noteq> [] \<and> take 1 (strip l) \<noteq> ''#'') (split_lines [])) = []"
    by code_simp
  have l14: "map strip (filter (\<lambda>l. strip l \<noteq> [] \<and> take 1 (strip l) \<noteq> ''#'') (split_lines ''q''))
               = [''q'']"
    by code_simp
  have p: "parse_content one_field_reader [] = []"
    unfolding parse_content_def Let_def l by (simp add: one_field_reader_def)
  have p14: "parse_content one_field_reader ''q'' = [device_of_row [''q'']]"
    unfolding parse_content_def Let_def l14 by (simp add: one_field_reader_def)
  from wrong_password_returns_text [OF f s c d n t v, of one_field_reader]
    wrong_password_returns_text [OF f s c d14 n14 t14 v14, of one_field_reader]
    f s c p p14
  show ?thesis by simp
qed

text \<open>
  Claim C8 on the code, at \<open>raw_roster_file\<close>: the lenient base64 decoder does not raise
  on the raw bytes (eight of them are base64 characters), so the nine bytes it returns
  replace the file, and decryption under the right password ends in \<open>ValueError\<close>,
  whatever the cipher.
\<close>

theorem raw_file_taken_for_base64:
  "b64decode raw_roster_file = Inr raw_roster_decoded
   \<and> decrypt_device_file cr raw_roster_file ''right''
       = Inl (ValueError ''The length of the provided data is not a multiple of the block length.'')
   \<and> parse_device_file cr csv_reader raw_roster_file ''right''
       = Inl (ValueError ''The length of the provided data is not a multiple of the block length.'')"
proof -
  have f: "b64decode raw_roster_file = Inr raw_roster_decoded"
    by code_simp
  have ns: "take 8 raw_roster_decoded \<noteq> ''Salted__''"
    by code_simp
  have ln: "length raw_roster_decoded mod 16 \<noteq> 0"
    by (simp add: raw_roster_decoded_def)
  have "decrypt_device_file cr raw_roster_file ''right''
       = Inl (ValueError ''The length of the provided data is not a multiple of the block length.'')"
    unfolding decrypt_device_file_def f Let_def using ns ln by simp
  with f show ?thesis by (simp add: parse_device_file_def)
qed

end
